theory Spec2Isabelle
  imports Main
begin

section \<open>Python values, exceptions and the services the scripts call\<close>

text \<open>
  The scripts are Python. A Python \<open>str\<close> is modelled as a \<open>string\<close> holding its UTF-8
  bytes: the scripts only compare strings, concatenate them, search an ASCII word in them
  and lower-case them, and the first three agree on code points and on UTF-8 bytes.
  Lower-casing (\<open>str.lower\<close>) is a parameter of the model. A lone surrogate, which a
  \<open>str\<close> decoded from JSON may hold and which has no UTF-8 form, is held as the three bytes
  that the \<open>surrogatepass\<close> handler writes (\<open>ED\<close>, then \<open>A0\<close> to \<open>BF\<close>, then one more).

  A value decoded from JSON is a \<open>json\<close>; Python's \<open>None\<close> is \<open>JNull\<close>, a \<open>dict\<close> is an
  association list read with \<open>map_of\<close>, a float is carried by its \<open>repr\<close>.
\<close>

datatype json =
    JNull
  | JBool bool
  | JInt int
  | JFloat string
  | JStr string
  | JArr "json list"
  | JObj "(string \<times> json) list"

text \<open>
  The exceptions the scripts can meet, all of them subclasses of \<open>Exception\<close>, which is what
  the handlers of the tutors catch. \<open>ServiceError\<close> is whatever a hosted endpoint raised.
\<close>

datatype exn =
    JSONDecodeError
  | KeyError string
  | TypeError
  | AttributeError
  | IndexError
  | UnicodeEncodeError
  | ServiceError string

datatype role = System | User | Assistant | Tool

text \<open>A ToolCallRequest: \<open>tool_call.id\<close>, \<open>tool_call.function.name\<close>, \<open>tool_call.function.arguments\<close>.\<close>

record tool_call =
  tc_id :: string
  tc_name :: string
  tc_arguments :: string

text \<open>
  A turn of the message list: a plain \<open>{"role", "content"}\<close> dictionary, the assistant
  message that carries tool calls, or a tool result \<open>{"role": "tool", "content",
  "tool_call_id"}\<close>. The content of a tool result is always \<open>json.dumps\<close> of a dictionary:
  the turn keeps the dictionary itself.
\<close>

datatype turn =
    Message role "string option"
  | AssistantCalls "string option" "tool_call list"
  | ToolResult json string

fun role_of :: "turn \<Rightarrow> role" where
  "role_of (Message r c) = r"
| "role_of (AssistantCalls c tcs) = Assistant"
| "role_of (ToolResult c i) = Tool"

fun tool_call_id :: "turn \<Rightarrow> string option" where
  "tool_call_id (ToolResult c i) = Some i"
| "tool_call_id t = None"

text \<open>
  What \<open>openai.chat.completions.create\<close> is given (\<open>messages\<close>, and whether \<open>tools\<close> is
  passed) and what the scripts read of its answer: \<open>response.choices[0].finish_reason\<close>,
  \<open>.message.content\<close> and \<open>.message.tool_calls\<close>.
\<close>

record request =
  messages :: "turn list"
  with_tools :: bool

record completion =
  finish_reason :: string
  content :: "string option"
  tool_calls :: "tool_call list option"

text \<open>
  The environment of a run. The hosted services answer as they please and may raise, so they
  are functions of an arbitrary world \<open>'w\<close> that they also change. The Python library
  functions and the text tables of the tools are parameters too: no property below depends
  on what they compute.
  \<^item> \<open>chat_create\<close>: \<open>openai.chat.completions.create\<close>;
  \<^item> \<open>speech_try\<close>: the body of the \<open>try\<close> of \<open>generar_audio_educativo\<close> (speech endpoint and
    temporary file), giving the path of the file;
  \<^item> \<open>imagen_try\<close>: the body of the \<open>try\<close> of \<open>generar_imagen_educativa\<close> (prompt, image
    endpoint, download), giving the image;
  \<^item> \<open>json_loads\<close>, \<open>str_lower\<close>: \<open>json.loads\<close> (\<open>None\<close> when it raises) and \<open>str.lower\<close>;
  \<^item> \<open>py_str\<close>, \<open>exc_str\<close>: the text an f-string gives for a value and for an exception;
  \<^item> \<open>print_exc\<close>: \<open>print(text)\<close> on the standard output, \<open>None\<close> when the text is written and
    the exception when it is not (UnicodeEncodeError when the encoding of the output has no
    form for the text);
  \<^item> \<open>explicaciones\<close>, \<open>codigos\<close>: the nested dictionaries of the two tutor tools.
\<close>

record 'w env =
  chat_create :: "request \<Rightarrow> 'w \<Rightarrow> (exn + completion) \<times> 'w"
  speech_try :: "json \<Rightarrow> 'w \<Rightarrow> (exn + string) \<times> 'w"
  imagen_try :: "json \<Rightarrow> json \<Rightarrow> json \<Rightarrow> 'w \<Rightarrow> (exn + string) \<times> 'w"
  json_loads :: "string \<Rightarrow> json option"
  str_lower :: "string \<Rightarrow> string"
  py_str :: "json \<Rightarrow> string"
  exc_str :: "exn \<Rightarrow> string"
  print_exc :: "string \<Rightarrow> exn option"
  explicaciones :: "(string \<times> (string \<times> string) list) list"
  codigos :: "(string \<times> (string \<times> string) list) list"

subsection \<open>Python operations on decoded values\<close>

text \<open>\<open>d[key]\<close>: a dictionary raises KeyError on a missing key, anything else TypeError.\<close>

fun subscript :: "json \<Rightarrow> string \<Rightarrow> exn + json" where
  "subscript (JObj kvs) key = (case map_of kvs key of None \<Rightarrow> Inl (KeyError key) | Some v \<Rightarrow> Inr v)"
| "subscript v key = Inl TypeError"

text \<open>\<open>d.get(key)\<close>: \<open>None\<close> on a missing key; only a dictionary has the method.\<close>

fun dict_get :: "json \<Rightarrow> string \<Rightarrow> exn + json" where
  "dict_get (JObj kvs) key = (case map_of kvs key of None \<Rightarrow> Inr JNull | Some v \<Rightarrow> Inr v)"
| "dict_get v key = Inl AttributeError"

text \<open>A list or a dictionary cannot be a dictionary key: looking one up raises TypeError.\<close>

fun hashable :: "json \<Rightarrow> bool" where
  "hashable (JArr vs) = False"
| "hashable (JObj kvs) = False"
| "hashable v = True"

text \<open>
  \<open>table.get(k, {}).get(n, dflt)\<close> on a dictionary of dictionaries with string keys: a
  key that is not a string is never found.
\<close>

fun get_anidado :: "(string \<times> (string \<times> string) list) list \<Rightarrow> json \<Rightarrow> json \<Rightarrow> string \<Rightarrow> exn + string" where
  "get_anidado table k n dflt =
     (if \<not> hashable k then Inl TypeError
      else if \<not> hashable n then Inl TypeError
      else Inr (case k of
                  JStr ks \<Rightarrow> (case map_of table ks of
                     None \<Rightarrow> dflt
                   | Some inner \<Rightarrow> (case n of
                        JStr ns \<Rightarrow> (case map_of inner ns of None \<Rightarrow> dflt | Some t \<Rightarrow> t)
                      | _ \<Rightarrow> dflt))
                | _ \<Rightarrow> dflt))"

text \<open>Truth value of a decoded value and of an optional path or image (\<open>if audio:\<close>).\<close>

fun truthy :: "json \<Rightarrow> bool" where
  "truthy JNull = False"
| "truthy (JBool b) = b"
| "truthy (JInt i) = (i \<noteq> 0)"
| "truthy (JFloat r) = (r \<noteq> ''0.0'' \<and> r \<noteq> ''-0.0'')"
| "truthy (JStr s) = (s \<noteq> [])"
| "truthy (JArr vs) = (vs \<noteq> [])"
| "truthy (JObj kvs) = (kvs \<noteq> [])"

definition truthy_opt :: "string option \<Rightarrow> bool" where
  "truthy_opt a = (case a of None \<Rightarrow> False | Some s \<Rightarrow> s \<noteq> [])"

text \<open>\<open>needle in haystack\<close> on strings, and \<open>any(p(x) for x in xs)\<close>.\<close>

fun contains :: "string \<Rightarrow> string \<Rightarrow> bool" where
  "contains needle [] = (needle = [])"
| "contains needle (c # cs) = (take (length needle) (c # cs) = needle \<or> contains needle cs)"

fun any :: "('a \<Rightarrow> bool) \<Rightarrow> 'a list \<Rightarrow> bool" where
  "any p [] = False"
| "any p (x # xs) = (p x \<or> any p xs)"

text \<open>\<open>None\<close> or a \<open>str\<close> as a Python value.\<close>

definition of_opt :: "string option \<Rightarrow> json" where
  "of_opt a = (case a of None \<Rightarrow> JNull | Some s \<Rightarrow> JStr s)"

text \<open>
  A field of a dictionary that the program built itself: \<open>d.get(key)\<close>, and \<open>d[key]\<close> for a
  key that the builder always sets.
\<close>

fun campo :: "json \<Rightarrow> string \<Rightarrow> json" where
  "campo (JObj kvs) key = (case map_of kvs key of None \<Rightarrow> JNull | Some v \<Rightarrow> v)"
| "campo v key = JNull"

section \<open>The airline assistant (asistente_aerolinea.py)\<close>

definition system_message :: string where
  "system_message =
     ''Eres un asistente '' @ [CHR 0xC3, CHR 0xBA] @ ''til para una aerol'' @ [CHR 0xC3, CHR 0xAD]
     @ ''nea llamada FlightAI. ''
     @ ''Da respuestas breves y corteses, de no m'' @ [CHR 0xC3, CHR 0xA1] @ ''s de una oraci''
     @ [CHR 0xC3, CHR 0xB3] @ ''n. ''
     @ ''Se siempre preciso. Si no sabes la respuesta, dilo.''"

definition o_acute :: string where
  "o_acute = [CHR 0xC3, CHR 0xB3]"

definition euro :: string where
  "euro = [CHR 0xE2, CHR 0x82, CHR 0xAC]"

definition ticket_prices :: "(string \<times> string) list" where
  "ticket_prices =
     [(''londres'', ''799'' @ euro),
      (''par'' @ [CHR 0xC3, CHR 0xAD] @ ''s'', ''899'' @ euro),
      (''tokyo'', ''1400'' @ euro),
      (''berl'' @ [CHR 0xC3, CHR 0xAD] @ ''n'', ''499'' @ euro)]"

text \<open>
  The line that \<open>get_ticket_price\<close> prints first, for the city as the f-string shows it.
\<close>

definition aviso_precio :: "string \<Rightarrow> string" where
  "aviso_precio ciudad =
     ''Se solicit'' @ o_acute @ '' la herramienta get_ticket_price para '' @ ciudad"

text \<open>
  \<open>get_ticket_price(destination_city)\<close>. The line is printed before anything else, and an
  exception of \<open>print\<close> leaves the function. Then only a \<open>str\<close> has \<open>.lower()\<close>: any other
  value (the \<open>None\<close> that \<open>arguments.get\<close> gives for a missing key among them) raises
  AttributeError. In an f-string a \<open>str\<close> stands for itself.
\<close>

fun get_ticket_price :: "'w env \<Rightarrow> json \<Rightarrow> exn + string" where
  "get_ticket_price E (JStr destination_city) =
     (case print_exc E (aviso_precio destination_city) of
        Some e \<Rightarrow> Inl e
      | None \<Rightarrow>
          (let city = str_lower E destination_city
           in Inr (case map_of ticket_prices city of None \<Rightarrow> ''Unknown'' | Some price \<Rightarrow> price)))"
| "get_ticket_price E v =
     (case print_exc E (aviso_precio (py_str E v)) of
        Some e \<Rightarrow> Inl e
      | None \<Rightarrow> Inl AttributeError)"

text \<open>
  \<open>handle_tool_call(message)\<close>: the first tool call of the message and no other; its name is
  not read.
\<close>

definition handle_tool_call :: "'w env \<Rightarrow> completion \<Rightarrow> exn + turn \<times> json" where
  "handle_tool_call E message =
     (case tool_calls message of
        None \<Rightarrow> Inl TypeError
      | Some [] \<Rightarrow> Inl IndexError
      | Some (tool_call # rest) \<Rightarrow>
          (case json_loads E (tc_arguments tool_call) of
             None \<Rightarrow> Inl JSONDecodeError
           | Some arguments \<Rightarrow>
               (case dict_get arguments ''destination_city'' of
                  Inl e \<Rightarrow> Inl e
                | Inr city \<Rightarrow>
                    (case get_ticket_price E city of
                       Inl e \<Rightarrow> Inl e
                     | Inr price \<Rightarrow>
                         Inr (ToolResult
                                (JObj [(''destination_city'', city), (''price'', JStr price)])
                                (tc_id tool_call),
                              city)))))"

text \<open>
  \<open>chat(message, history)\<close>. It has no handler: an exception leaves the function (\<open>Inl\<close>).
  The result comes with the world after the calls and with the requests sent to the
  endpoint, in order.
\<close>

definition chat :: "'w env \<Rightarrow> string \<Rightarrow> turn list \<Rightarrow> 'w \<Rightarrow> (exn + string option) \<times> 'w \<times> request list" where
  "chat E message history w =
     (let msgs = [Message System (Some system_message)] @ history @ [Message User (Some message)];
          req1 = \<lparr>messages = msgs, with_tools = True\<rparr>
      in case chat_create E req1 w of
           (Inl e, w1) \<Rightarrow> (Inl e, w1, [req1])
         | (Inr response, w1) \<Rightarrow>
             if finish_reason response = ''tool_calls'' then
               (case handle_tool_call E response of
                  Inl e \<Rightarrow> (Inl e, w1, [req1])
                | Inr (tool_response, city) \<Rightarrow>
                    (let req2 = \<lparr>messages = msgs @ [AssistantCalls (content response)
                                                      (case tool_calls response of None \<Rightarrow> [] | Some tcs \<Rightarrow> tcs),
                                                    tool_response],
                                 with_tools = False\<rparr>
                     in case chat_create E req2 w1 of
                          (Inl e, w2) \<Rightarrow> (Inl e, w2, [req1, req2])
                        | (Inr response2, w2) \<Rightarrow> (Inr (content response2), w2, [req1, req2])))
             else (Inr (content response), w1, [req1]))"

section \<open>The robotics tutors (tutor_robotica_simple.py, tutor_robotica_multimodal.py)\<close>

text \<open>
  The fields of \<open>TutorRoboticaSimple\<close> and of \<open>TutorRoboticaMultimodal\<close>. Both classes and
  their functions have the same names in the two files: those of the second file carry the
  suffix \<open>_mm\<close>.
\<close>

record tutor =
  nivel :: string
  idioma :: string
  system_prompt :: string
  historial_conversacion :: "turn list"

definition TEMAS_ROBOTICA :: "string list" where
  "TEMAS_ROBOTICA =
     [''arduino'', ''electronica'', ''mecatronica'', ''programacion'',
      ''sensores'', ''actuadores'', ''motores'', ''circuitos'', ''codigo'',
      ''proyectos'', ''robotica_basica'', ''automatizacion'']"

text \<open>\<open>generar_audio_educativo(texto)\<close>: whatever the body raises is caught and gives \<open>None\<close>.\<close>

definition generar_audio_educativo :: "'w env \<Rightarrow> json \<Rightarrow> 'w \<Rightarrow> string option \<times> 'w" where
  "generar_audio_educativo E texto w =
     (case speech_try E texto w of
        (Inl e, w') \<Rightarrow> (None, w')
      | (Inr temp_file_path, w') \<Rightarrow> (Some temp_file_path, w'))"

subsection \<open>The tools of the simple tutor\<close>

definition explicar_componente_arduino :: "'w env \<Rightarrow> json \<Rightarrow> json \<Rightarrow> exn + json" where
  "explicar_componente_arduino E componente nivel' =
     (case get_anidado (explicaciones E) componente nivel'
             (''Informaci'' @ o_acute @ ''n sobre '' @ py_str E componente
              @ '' para nivel '' @ py_str E nivel') of
        Inl e \<Rightarrow> Inl e
      | Inr explicacion \<Rightarrow>
          Inr (JObj [(''explicacion'', JStr explicacion), (''generar_audio'', JBool True)]))"

definition mostrar_codigo_ejemplo :: "'w env \<Rightarrow> json \<Rightarrow> json \<Rightarrow> exn + json" where
  "mostrar_codigo_ejemplo E concepto nivel' =
     (case get_anidado (codigos E) concepto nivel'
             (''// C'' @ o_acute @ ''digo de ejemplo para '' @ py_str E concepto) of
        Inl e \<Rightarrow> Inl e
      | Inr codigo \<Rightarrow>
          Inr (JObj [(''codigo'', JStr codigo),
                     (''explicacion'', JStr (''Ejemplo de c'' @ o_acute @ ''digo para '' @ py_str E concepto
                                             @ '' adaptado al nivel '' @ py_str E nivel')),
                     (''generar_audio'', JBool False)]))"

subsection \<open>The simple tutor\<close>

text \<open>
  \<open>manejar_herramienta(tool_call)\<close>: the arguments are decoded before the name is looked
  at; nothing here catches an exception.
\<close>

definition manejar_herramienta :: "'w env \<Rightarrow> tool_call \<Rightarrow> 'w \<Rightarrow> (exn + turn \<times> string option) \<times> 'w" where
  "manejar_herramienta E tool_call w =
     (let function_name = tc_name tool_call
      in case json_loads E (tc_arguments tool_call) of
           None \<Rightarrow> (Inl JSONDecodeError, w)
         | Some arguments \<Rightarrow>
             (case (if function_name = ''explicar_componente_arduino'' then
                      (case subscript arguments ''componente'' of
                         Inl e \<Rightarrow> (Inl e, w)
                       | Inr c \<Rightarrow>
                      (case subscript arguments ''nivel'' of
                         Inl e \<Rightarrow> (Inl e, w)
                       | Inr n \<Rightarrow>
                      (case explicar_componente_arduino E c n of
                         Inl e \<Rightarrow> (Inl e, w)
                       | Inr resultado \<Rightarrow>
                           if truthy (campo resultado ''generar_audio'') then
                             (case generar_audio_educativo E (campo resultado ''explicacion'') w of
                                (audio_generado, w') \<Rightarrow> (Inr (resultado, audio_generado), w'))
                           else (Inr (resultado, None), w))))
                    else if function_name = ''mostrar_codigo_ejemplo'' then
                      (case subscript arguments ''concepto'' of
                         Inl e \<Rightarrow> (Inl e, w)
                       | Inr c \<Rightarrow>
                      (case subscript arguments ''nivel'' of
                         Inl e \<Rightarrow> (Inl e, w)
                       | Inr n \<Rightarrow>
                      (case mostrar_codigo_ejemplo E c n of
                         Inl e \<Rightarrow> (Inl e, w)
                       | Inr resultado \<Rightarrow> (Inr (resultado, None), w))))
                    else
                      (Inr (JObj [(''error'', JStr (''Herramienta '' @ function_name @ '' no reconocida''))],
                            None), w)) of
                (Inl e, w') \<Rightarrow> (Inl e, w')
              | (Inr (resultado, audio_generado), w') \<Rightarrow>
                  (Inr (ToolResult resultado (tc_id tool_call), audio_generado), w')))"

text \<open>
  The loop \<open>for tool_call in message.tool_calls\<close> of \<open>responder\<close>: each answer is appended to
  \<open>mensajes\<close>, the last audio that is not empty is kept, the first exception ends the loop.
\<close>

fun procesar_herramientas ::
  "'w env \<Rightarrow> tool_call list \<Rightarrow> turn list \<Rightarrow> string option \<Rightarrow> 'w
     \<Rightarrow> (exn + turn list \<times> string option) \<times> 'w" where
  "procesar_herramientas E [] mensajes audio_resultado w = (Inr (mensajes, audio_resultado), w)"
| "procesar_herramientas E (tool_call # rest) mensajes audio_resultado w =
     (case manejar_herramienta E tool_call w of
        (Inl e, w') \<Rightarrow> (Inl e, w')
      | (Inr (respuesta_herramienta, audio), w') \<Rightarrow>
          procesar_herramientas E rest (mensajes @ [respuesta_herramienta])
            (if truthy_opt audio then audio else audio_resultado) w')"

text \<open>
  The end of the \<open>try\<close> block of \<open>responder\<close>, from \<open>respuesta_texto\<close> on: the automatic audio,
  then the update of the history and its cut to the last 10 entries. \<open>None.lower()\<close> raises
  AttributeError.
\<close>

definition actualizar_historial :: "tutor \<Rightarrow> string \<Rightarrow> string option \<Rightarrow> tutor" where
  "actualizar_historial t mensaje respuesta_texto =
     (let h = historial_conversacion t
              @ [Message User (Some mensaje), Message Assistant respuesta_texto]
      in t\<lparr>historial_conversacion := (if length h > 10 then drop (length h - 10) h else h)\<rparr>)"

definition terminar ::
  "'w env \<Rightarrow> tutor \<Rightarrow> string \<Rightarrow> string option \<Rightarrow> string option \<Rightarrow> 'w
     \<Rightarrow> (exn + (string option \<times> string option) \<times> tutor) \<times> 'w" where
  "terminar E t mensaje respuesta_texto audio_resultado w =
     (case (if \<not> truthy_opt audio_resultado then
              (case respuesta_texto of
                 None \<Rightarrow> (Inl AttributeError, w)
               | Some texto \<Rightarrow>
                   (let mensaje_lower = str_lower E mensaje;
                        respuesta_lower = str_lower E texto
                    in if any (\<lambda>tema. contains tema mensaje_lower \<or> contains tema respuesta_lower)
                              TEMAS_ROBOTICA
                       then (case generar_audio_educativo E (JStr texto) w of
                               (audio, w') \<Rightarrow> (Inr audio, w'))
                       else (Inr audio_resultado, w)))
            else (Inr audio_resultado, w)) of
        (Inl e, w') \<Rightarrow> (Inl e, w')
      | (Inr audio, w') \<Rightarrow>
          (Inr ((respuesta_texto, audio), actualizar_historial t mensaje respuesta_texto), w'))"

text \<open>
  The \<open>try\<close> block of \<open>responder(mensaje)\<close>, with the requests sent to the endpoint. Iterating
  over \<open>message.tool_calls\<close> when it is \<open>None\<close> raises TypeError.
\<close>

definition responder_try ::
  "'w env \<Rightarrow> tutor \<Rightarrow> string \<Rightarrow> 'w
     \<Rightarrow> (exn + (string option \<times> string option) \<times> tutor) \<times> 'w \<times> request list" where
  "responder_try E t mensaje w =
     (let mensajes = [Message System (Some (system_prompt t))] @ historial_conversacion t
                     @ [Message User (Some mensaje)];
          req1 = \<lparr>messages = mensajes, with_tools = True\<rparr>
      in case chat_create E req1 w of
           (Inl e, w1) \<Rightarrow> (Inl e, w1, [req1])
         | (Inr response, w1) \<Rightarrow>
             if finish_reason response = ''tool_calls'' then
               (case tool_calls response of
                  None \<Rightarrow> (Inl TypeError, w1, [req1])
                | Some tcs \<Rightarrow>
                    (case procesar_herramientas E tcs
                            (mensajes @ [AssistantCalls (content response) tcs]) None w1 of
                       (Inl e, w2) \<Rightarrow> (Inl e, w2, [req1])
                     | (Inr (mensajes2, audio_resultado), w2) \<Rightarrow>
                         (let req2 = \<lparr>messages = mensajes2, with_tools = False\<rparr>
                          in case chat_create E req2 w2 of
                               (Inl e, w3) \<Rightarrow> (Inl e, w3, [req1, req2])
                             | (Inr response2, w3) \<Rightarrow>
                                 (case terminar E t mensaje (content response2) audio_resultado w3 of
                                    (r, w4) \<Rightarrow> (r, w4, [req1, req2])))))
             else (case terminar E t mensaje (content response) None w1 of
                     (r, w2) \<Rightarrow> (r, w2, [req1])))"

text \<open>
  \<open>responder(mensaje)\<close>: the \<open>except Exception\<close> turns any exception of the block into the
  returned text and leaves the tutor as it was.
\<close>

definition responder ::
  "'w env \<Rightarrow> tutor \<Rightarrow> string \<Rightarrow> 'w
     \<Rightarrow> (string option \<times> string option) \<times> tutor \<times> 'w \<times> request list" where
  "responder E t mensaje w =
     (case responder_try E t mensaje w of
        (Inr (res, t'), w', reqs) \<Rightarrow> (res, t', w', reqs)
      | (Inl e, w', reqs) \<Rightarrow>
          ((Some (''Error procesando mensaje: '' @ exc_str E e), None), t, w', reqs))"

text \<open>Successive calls of \<open>responder\<close> on the same tutor, one per message.\<close>

fun responder_todos :: "'w env \<Rightarrow> tutor \<Rightarrow> string list \<Rightarrow> 'w \<Rightarrow> tutor \<times> 'w" where
  "responder_todos E t [] w = (t, w)"
| "responder_todos E t (mensaje # rest) w =
     (case responder E t mensaje w of (res, t', w', reqs) \<Rightarrow> responder_todos E t' rest w')"

subsection \<open>The tools of the multimodal tutor\<close>

text \<open>An image is known by a name; it is never an empty value (\<open>if imagen:\<close> tests for \<open>None\<close>).\<close>

definition generar_imagen_educativa :: "'w env \<Rightarrow> json \<Rightarrow> json \<Rightarrow> json \<Rightarrow> 'w \<Rightarrow> string option \<times> 'w" where
  "generar_imagen_educativa E tema nivel' descripcion_especifica w =
     (case imagen_try E tema nivel' descripcion_especifica w of
        (Inl e, w') \<Rightarrow> (None, w')
      | (Inr img, w') \<Rightarrow> (Some img, w'))"

definition explicar_componente_arduino_mm :: "'w env \<Rightarrow> json \<Rightarrow> json \<Rightarrow> exn + json" where
  "explicar_componente_arduino_mm E componente nivel' =
     (case get_anidado (explicaciones E) componente nivel'
             (''Informaci'' @ o_acute @ ''n sobre '' @ py_str E componente
              @ '' para nivel '' @ py_str E nivel') of
        Inl e \<Rightarrow> Inl e
      | Inr explicacion \<Rightarrow>
          Inr (JObj [(''explicacion'', JStr explicacion),
                     (''generar_imagen'', JBool True),
                     (''tema_imagen'', componente),
                     (''generar_audio'', JBool True)]))"

definition mostrar_codigo_ejemplo_mm :: "'w env \<Rightarrow> json \<Rightarrow> json \<Rightarrow> exn + json" where
  "mostrar_codigo_ejemplo_mm E concepto nivel' =
     (case get_anidado (codigos E) concepto nivel'
             (''// C'' @ o_acute @ ''digo de ejemplo para '' @ py_str E concepto) of
        Inl e \<Rightarrow> Inl e
      | Inr codigo \<Rightarrow>
          Inr (JObj [(''codigo'', JStr codigo),
                     (''explicacion'', JStr (''Ejemplo de c'' @ o_acute @ ''digo para '' @ py_str E concepto
                                             @ '' adaptado al nivel '' @ py_str E nivel')),
                     (''generar_imagen'', JBool True),
                     (''tema_imagen'', JStr (''c'' @ o_acute @ ''digo '' @ py_str E concepto)),
                     (''generar_audio'', JBool False)]))"

subsection \<open>The multimodal tutor\<close>

definition palabras_clave :: "string list" where
  "palabras_clave =
     [''arduino'', ''sensor'', ''led'', ''motor'', ''circuito'', ''robot'', ''componente'',
      ''electronica'', ''programacion'', ''codigo'', ''esquema'', ''diagrama'']"

definition manejar_herramienta_mm ::
  "'w env \<Rightarrow> tool_call \<Rightarrow> 'w \<Rightarrow> (exn + turn \<times> string option \<times> string option) \<times> 'w" where
  "manejar_herramienta_mm E tool_call w =
     (let function_name = tc_name tool_call
      in case json_loads E (tc_arguments tool_call) of
           None \<Rightarrow> (Inl JSONDecodeError, w)
         | Some arguments \<Rightarrow>
             (case (if function_name = ''explicar_componente_arduino'' then
                      (case subscript arguments ''componente'' of
                         Inl e \<Rightarrow> (Inl e, w)
                       | Inr c \<Rightarrow>
                      (case subscript arguments ''nivel'' of
                         Inl e \<Rightarrow> (Inl e, w)
                       | Inr n \<Rightarrow>
                      (case explicar_componente_arduino_mm E c n of
                         Inl e \<Rightarrow> (Inl e, w)
                       | Inr resultado \<Rightarrow>
                           (case (if truthy (campo resultado ''generar_imagen'') then
                                    generar_imagen_educativa E (campo resultado ''tema_imagen'') n
                                      (JStr (''componente '' @ py_str E c @ '' para educaci'' @ o_acute @ ''n'')) w
                                  else (None, w)) of
                              (imagen_generada, w1) \<Rightarrow>
                           (case (if truthy (campo resultado ''generar_audio'') then
                                    generar_audio_educativo E (campo resultado ''explicacion'') w1
                                  else (None, w1)) of
                              (audio_generado, w2) \<Rightarrow>
                                (Inr (resultado, imagen_generada, audio_generado), w2))))))
                    else if function_name = ''mostrar_codigo_ejemplo'' then
                      (case subscript arguments ''concepto'' of
                         Inl e \<Rightarrow> (Inl e, w)
                       | Inr c \<Rightarrow>
                      (case subscript arguments ''nivel'' of
                         Inl e \<Rightarrow> (Inl e, w)
                       | Inr n \<Rightarrow>
                      (case mostrar_codigo_ejemplo_mm E c n of
                         Inl e \<Rightarrow> (Inl e, w)
                       | Inr resultado \<Rightarrow>
                           (case (if truthy (campo resultado ''generar_imagen'') then
                                    generar_imagen_educativa E (JStr ''programacion arduino'') n
                                      (JStr (''c'' @ o_acute @ ''digo de ejemplo para '' @ py_str E c)) w
                                  else (None, w)) of
                              (imagen_generada, w1) \<Rightarrow>
                                (Inr (resultado, imagen_generada, None), w1)))))
                    else if function_name = ''generar_imagen_educativa'' then
                      (case subscript arguments ''tema'' of
                         Inl e \<Rightarrow> (Inl e, w)
                       | Inr tema \<Rightarrow>
                      (case subscript arguments ''nivel'' of
                         Inl e \<Rightarrow> (Inl e, w)
                       | Inr n \<Rightarrow>
                      (case generar_imagen_educativa E tema n
                              (case arguments of
                                 JObj kvs \<Rightarrow> (case map_of kvs ''descripcion_especifica'' of
                                                None \<Rightarrow> JStr [] | Some d \<Rightarrow> d)
                               | _ \<Rightarrow> JStr []) w of
                         (imagen_generada, w1) \<Rightarrow>
                           (Inr (JObj [(''mensaje'', JStr (''Imagen generada para '' @ py_str E tema))],
                                 imagen_generada, None), w1))))
                    else
                      (Inr (JObj [(''error'', JStr (''Herramienta '' @ function_name @ '' no reconocida''))],
                            None, None), w)) of
                (Inl e, w') \<Rightarrow> (Inl e, w')
              | (Inr (resultado, imagen_generada, audio_generado), w') \<Rightarrow>
                  (Inr (ToolResult resultado (tc_id tool_call),
                        imagen_generada, audio_generado), w')))"

fun procesar_herramientas_mm ::
  "'w env \<Rightarrow> tool_call list \<Rightarrow> turn list \<Rightarrow> string option \<Rightarrow> string option \<Rightarrow> 'w
     \<Rightarrow> (exn + turn list \<times> string option \<times> string option) \<times> 'w" where
  "procesar_herramientas_mm E [] mensajes imagen_resultado audio_resultado w =
     (Inr (mensajes, imagen_resultado, audio_resultado), w)"
| "procesar_herramientas_mm E (tool_call # rest) mensajes imagen_resultado audio_resultado w =
     (case manejar_herramienta_mm E tool_call w of
        (Inl e, w') \<Rightarrow> (Inl e, w')
      | (Inr (respuesta_herramienta, imagen, audio), w') \<Rightarrow>
          procesar_herramientas_mm E rest (mensajes @ [respuesta_herramienta])
            (if imagen \<noteq> None then imagen else imagen_resultado)
            (if truthy_opt audio then audio else audio_resultado) w')"

text \<open>
  The end of the \<open>try\<close> block of the multimodal \<open>responder\<close>: automatic audio and image, both
  behind their own handlers, then the same update of the history. Nothing here raises.
\<close>

definition terminar_mm ::
  "'w env \<Rightarrow> tutor \<Rightarrow> string \<Rightarrow> string option \<Rightarrow> string option \<Rightarrow> string option \<Rightarrow> 'w
     \<Rightarrow> ((string option \<times> string option \<times> string option) \<times> tutor) \<times> 'w" where
  "terminar_mm E t mensaje respuesta_texto imagen_resultado audio_resultado w =
     (case (if \<not> truthy_opt audio_resultado
            then generar_audio_educativo E (of_opt respuesta_texto) w
            else (audio_resultado, w)) of
        (audio, w1) \<Rightarrow>
     (case (if imagen_resultado = None then
              (if any (\<lambda>palabra. contains palabra (str_lower E mensaje)) palabras_clave then
                 (let tema_detectado =
                        (case find (\<lambda>palabra. contains palabra (str_lower E mensaje)) palabras_clave of
                           None \<Rightarrow> ''robotica'' | Some palabra \<Rightarrow> palabra)
                  in generar_imagen_educativa E (JStr tema_detectado) (JStr (nivel t))
                       (JStr (''concepto educativo sobre '' @ tema_detectado)) w1)
               else (imagen_resultado, w1))
            else (imagen_resultado, w1)) of
        (imagen, w2) \<Rightarrow>
          (((respuesta_texto, imagen, audio), actualizar_historial t mensaje respuesta_texto), w2)))"

definition responder_try_mm ::
  "'w env \<Rightarrow> tutor \<Rightarrow> string \<Rightarrow> 'w
     \<Rightarrow> (exn + (string option \<times> string option \<times> string option) \<times> tutor) \<times> 'w \<times> request list" where
  "responder_try_mm E t mensaje w =
     (let mensajes = [Message System (Some (system_prompt t))] @ historial_conversacion t
                     @ [Message User (Some mensaje)];
          req1 = \<lparr>messages = mensajes, with_tools = True\<rparr>
      in case chat_create E req1 w of
           (Inl e, w1) \<Rightarrow> (Inl e, w1, [req1])
         | (Inr response, w1) \<Rightarrow>
             if finish_reason response = ''tool_calls'' then
               (case tool_calls response of
                  None \<Rightarrow> (Inl TypeError, w1, [req1])
                | Some tcs \<Rightarrow>
                    (case procesar_herramientas_mm E tcs
                            (mensajes @ [AssistantCalls (content response) tcs]) None None w1 of
                       (Inl e, w2) \<Rightarrow> (Inl e, w2, [req1])
                     | (Inr (mensajes2, imagen_resultado, audio_resultado), w2) \<Rightarrow>
                         (let req2 = \<lparr>messages = mensajes2, with_tools = False\<rparr>
                          in case chat_create E req2 w2 of
                               (Inl e, w3) \<Rightarrow> (Inl e, w3, [req1, req2])
                             | (Inr response2, w3) \<Rightarrow>
                                 (case terminar_mm E t mensaje (content response2)
                                         imagen_resultado audio_resultado w3 of
                                    (r, w4) \<Rightarrow> (Inr r, w4, [req1, req2])))))
             else (case terminar_mm E t mensaje (content response) None None w1 of
                     (r, w2) \<Rightarrow> (Inr r, w2, [req1])))"

definition error_mark :: string where
  "error_mark = [CHR 0xE2, CHR 0x9D, CHR 0x8C]"

definition responder_mm ::
  "'w env \<Rightarrow> tutor \<Rightarrow> string \<Rightarrow> 'w
     \<Rightarrow> (string option \<times> string option \<times> string option) \<times> tutor \<times> 'w \<times> request list" where
  "responder_mm E t mensaje w =
     (case responder_try_mm E t mensaje w of
        (Inr (res, t'), w', reqs) \<Rightarrow> (res, t', w', reqs)
      | (Inl e, w', reqs) \<Rightarrow>
          ((Some (error_mark @ '' Error procesando mensaje: '' @ exc_str E e), None, None), t, w', reqs))"

fun responder_todos_mm :: "'w env \<Rightarrow> tutor \<Rightarrow> string list \<Rightarrow> 'w \<Rightarrow> tutor \<times> 'w" where
  "responder_todos_mm E t [] w = (t, w)"
| "responder_todos_mm E t (mensaje # rest) w =
     (case responder_mm E t mensaje w of (res, t', w', reqs) \<Rightarrow> responder_todos_mm E t' rest w')"

section \<open>A scripted environment\<close>

text \<open>
  An environment to run the functions on concrete inputs. The chat endpoint answers from a
  script, one entry per call, and raises once the script is used up; the speech and image
  services succeed. \<open>ascii_lower\<close> is \<open>str.lower\<close> on strings whose capital letters are all
  ASCII; \<open>loads_guion\<close> is \<open>json.loads\<close> on the argument blobs used below (every other
  blob used below is not JSON); \<open>str_guion\<close> and \<open>exc_guion\<close> give a text for the values and
  the exceptions met below; the tables are excerpts of those of the tutors. The standard
  output is written in UTF-8: \<open>print_guion\<close> refuses a text that holds a surrogate, and no
  other.
\<close>

fun tiene_surrogate :: "string \<Rightarrow> bool" where
  "tiene_surrogate (a # b # cs) =
     ((a = CHR 0xED \<and> (160::nat) \<le> of_char b) \<or> tiene_surrogate (b # cs))"
| "tiene_surrogate cs = False"

definition print_guion :: "string \<Rightarrow> exn option" where
  "print_guion texto = (if tiene_surrogate texto then Some UnicodeEncodeError else None)"

definition ascii_lower :: "string \<Rightarrow> string" where
  "ascii_lower s =
     map (\<lambda>c. case map_of (zip ''ABCDEFGHIJKLMNOPQRSTUVWXYZ'' ''abcdefghijklmnopqrstuvwxyz'') c of
                None \<Rightarrow> c | Some l \<Rightarrow> l) s"

definition guion_create ::
  "request \<Rightarrow> (exn + completion) list \<Rightarrow> (exn + completion) \<times> (exn + completion) list" where
  "guion_create req w =
     (case w of [] \<Rightarrow> (Inl (ServiceError ''Connection error.''), []) | r # rs \<Rightarrow> (r, rs))"

definition loads_guion :: "string \<Rightarrow> json option" where
  \<open>loads_guion =
     map_of
       [(''{"destination_city": "Londres"}'', JObj [(''destination_city'', JStr ''Londres'')]),
        (''{"destination_city": "Tokyo"}'', JObj [(''destination_city'', JStr ''Tokyo'')]),
        (''{}'', JObj []),
        (''{"componente": "led", "nivel": "secundaria"}'',
           JObj [(''componente'', JStr ''led''), (''nivel'', JStr ''secundaria'')]),
        (''{"componente": ["led"], "nivel": "secundaria"}'',
           JObj [(''componente'', JArr [JStr ''led'']), (''nivel'', JStr ''secundaria'')]),
        (''{"concepto": "led_parpadeo", "nivel": "primaria"}'',
           JObj [(''concepto'', JStr ''led_parpadeo''), (''nivel'', JStr ''primaria'')])]\<close>

definition str_guion :: "json \<Rightarrow> string" where
  "str_guion v =
     (case v of JStr s \<Rightarrow> s | JNull \<Rightarrow> ''None'' | JBool b \<Rightarrow> (if b then ''True'' else ''False'')
              | JFloat r \<Rightarrow> r | _ \<Rightarrow> ''...'')"

definition exc_guion :: "exn \<Rightarrow> string" where
  "exc_guion e =
     (case e of
        ServiceError m \<Rightarrow> m
      | KeyError k \<Rightarrow> [CHR 0x27] @ k @ [CHR 0x27]
      | JSONDecodeError \<Rightarrow> ''JSONDecodeError''
      | TypeError \<Rightarrow> ''TypeError''
      | AttributeError \<Rightarrow> ''AttributeError''
      | IndexError \<Rightarrow> ''IndexError''
      | UnicodeEncodeError \<Rightarrow> ''UnicodeEncodeError'')"

definition entorno :: "(exn + completion) list env" where
  "entorno =
     \<lparr>chat_create = guion_create,
      speech_try = (\<lambda>texto w. (Inr ''/tmp/tmpab12cd34.mp3'', w)),
      imagen_try = (\<lambda>tema nivel' descripcion w. (Inr ''imagen'', w)),
      json_loads = loads_guion,
      str_lower = ascii_lower,
      py_str = str_guion,
      exc_str = exc_guion,
      print_exc = print_guion,
      explicaciones =
        [(''led'',
          [(''secundaria'',
            ''Un LED es un semiconductor que emite luz cuando la corriente el''
            @ [CHR 0xC3, CHR 0xA9] @ ''ctrica pasa a trav'' @ [CHR 0xC3, CHR 0xA9] @ ''s de ''
            @ [CHR 0xC3, CHR 0xA9] @ ''l'')])],
      codigos = []\<rparr>"

text \<open>A fresh tutor, and the answers the script is made of.\<close>

definition tutor_nuevo :: tutor where
  "tutor_nuevo =
     \<lparr>nivel = ''primaria'', idioma = ''Espa'' @ [CHR 0xC3, CHR 0xB1] @ ''ol'',
      system_prompt = ''Eres un tutor experto'', historial_conversacion = []\<rparr>"

text \<open>A tutor that has answered five messages already.\<close>

definition tutor_usado :: tutor where
  "tutor_usado =
     tutor_nuevo\<lparr>historial_conversacion :=
       [Message User (Some ''m1''), Message Assistant (Some ''r1''),
        Message User (Some ''m2''), Message Assistant (Some ''r2''),
        Message User (Some ''m3''), Message Assistant (Some ''r3''),
        Message User (Some ''m4''), Message Assistant (Some ''r4''),
        Message User (Some ''m5''), Message Assistant (Some ''r5'')]\<rparr>"

definition llamada :: "string \<Rightarrow> string \<Rightarrow> string \<Rightarrow> tool_call" where
  "llamada i n a = \<lparr>tc_id = i, tc_name = n, tc_arguments = a\<rparr>"

definition pide :: "tool_call list \<Rightarrow> exn + completion" where
  "pide tcs = Inr \<lparr>finish_reason = ''tool_calls'', content = None, tool_calls = Some tcs\<rparr>"

definition dice :: "string \<Rightarrow> exn + completion" where
  "dice texto = Inr \<lparr>finish_reason = ''stop'', content = Some texto, tool_calls = None\<rparr>"

section \<open>Notions used by the properties\<close>

text \<open>The first request of \<open>responder\<close>, in both tutors: system prompt, history, user message.\<close>

definition primer_pedido :: "tutor \<Rightarrow> string \<Rightarrow> request" where
  "primer_pedido t mensaje =
     \<lparr>messages = [Message System (Some (system_prompt t))] @ historial_conversacion t
                  @ [Message User (Some mensaje)],
      with_tools = True\<rparr>"

text \<open>The first request of \<open>chat\<close>: system message, history, user message.\<close>

definition primer_pedido_chat :: "string \<Rightarrow> turn list \<Rightarrow> request" where
  "primer_pedido_chat message history =
     \<lparr>messages = [Message System (Some system_message)] @ history @ [Message User (Some message)],
      with_tools = True\<rparr>"

text \<open>The list is made of pairs: a user turn, then an assistant turn.\<close>

fun alterna :: "turn list \<Rightarrow> bool" where
  "alterna [] = True"
| "alterna [x] = False"
| "alterna (u # a # rest) = (role_of u = User \<and> role_of a = Assistant \<and> alterna rest)"

text \<open>The number of system turns of a message list.\<close>

definition system_turns :: "turn list \<Rightarrow> nat" where
  "system_turns ms = length (filter (\<lambda>x. role_of x = System) ms)"

text \<open>The message list has exactly one system turn, at its head, with the prompt \<open>p\<close>.\<close>

definition un_system_primero :: "string \<Rightarrow> turn list \<Rightarrow> bool" where
  "un_system_primero p ms = (system_turns ms = 1 \<and> take 1 ms = [Message System (Some p)])"



section \<open>Properties\<close>

subsection \<open>The price table\<close>

lemma get_ticket_price_str:
  "print_exc E (aviso_precio a) = None \<Longrightarrow>
     get_ticket_price E (JStr a) =
       Inr (case map_of ticket_prices (str_lower E a) of None \<Rightarrow> ''Unknown'' | Some price \<Rightarrow> price)"
  by (simp add: Let_def)

lemma ticket_prices_not_empty: "map_of ticket_prices k = Some p \<Longrightarrow> p \<noteq> []"
  by (auto simp: ticket_prices_def split: if_splits)

text \<open>
  An exception of the \<open>print\<close> leaves \<open>get_ticket_price\<close>; on the UTF-8 output of the script
  this is the case of a name that holds a lone surrogate (here U+D83D).
\<close>

lemma get_ticket_price_print_raises:
  "print_exc E (aviso_precio a) = Some e \<Longrightarrow> get_ticket_price E (JStr a) = Inl e"
  by simp

lemma get_ticket_price_surrogate:
  "get_ticket_price entorno (JStr [CHR 0xED, CHR 0xA0, CHR 0xBD]) = Inl UnicodeEncodeError"
  by (simp add: entorno_def aviso_precio_def print_guion_def o_acute_def)

text \<open>
  C9 (as amended). For a city name whose line \<open>get_ticket_price\<close> can print: the table is read
  through \<open>str.lower\<close>, so another such name with the same lower-case form gets the same
  answer. The key of the 799 euro fare is \<open>londres\<close>: a name that lower-cases to it gets
  \<open>799\<close> followed by the euro sign, and \<open>london\<close> is not a key and gets \<open>Unknown\<close>. A name
  whose lower-case form is not a key gets the literal \<open>Unknown\<close>. The function then does
  not raise and does not return the empty string.
\<close>

theorem get_ticket_price_table:
  "print_exc E (aviso_precio a) = None \<longrightarrow>
     (print_exc E (aviso_precio b) = None \<and> str_lower E a = str_lower E b \<longrightarrow>
        get_ticket_price E (JStr a) = get_ticket_price E (JStr b))
     \<and> (str_lower E a = ''londres'' \<longrightarrow> get_ticket_price E (JStr a) = Inr (''799'' @ euro))
     \<and> (str_lower E a = ''london'' \<longrightarrow> get_ticket_price E (JStr a) = Inr ''Unknown'')
     \<and> (str_lower E a \<notin> fst ` set ticket_prices \<longrightarrow> get_ticket_price E (JStr a) = Inr ''Unknown'')
     \<and> (\<exists>p. get_ticket_price E (JStr a) = Inr p \<and> p \<noteq> [])"
proof (intro conjI impI)
  assume pa: "print_exc E (aviso_precio a) = None"
  note g = get_ticket_price_str [OF pa]
  {
    assume "print_exc E (aviso_precio b) = None \<and> str_lower E a = str_lower E b"
    then show "get_ticket_price E (JStr a) = get_ticket_price E (JStr b)"
      using g by (simp add: get_ticket_price_str)
  next
    assume "str_lower E a = ''londres''"
    then show "get_ticket_price E (JStr a) = Inr (''799'' @ euro)"
      using g by (simp add: ticket_prices_def)
  next
    assume "str_lower E a = ''london''"
    then show "get_ticket_price E (JStr a) = Inr ''Unknown''"
      using g by (simp add: ticket_prices_def)
  next
    assume "str_lower E a \<notin> fst ` set ticket_prices"
    then have "map_of ticket_prices (str_lower E a) = None"
      by (simp add: map_of_eq_None_iff)
    then show "get_ticket_price E (JStr a) = Inr ''Unknown''"
      using g by simp
  next
    show "\<exists>p. get_ticket_price E (JStr a) = Inr p \<and> p \<noteq> []"
    proof (cases "map_of ticket_prices (str_lower E a)")
      case None
      then show ?thesis using g by simp
    next
      case (Some p)
      then show ?thesis using g ticket_prices_not_empty [OF Some] by simp
    qed
  }
qed

theorem get_ticket_price_table_witness:
  "print_exc entorno (aviso_precio ''LONDRES'') = None
   \<and> get_ticket_price entorno (JStr ''LONDRES'') = get_ticket_price entorno (JStr ''Londres'')
   \<and> get_ticket_price entorno (JStr ''LONDRES'') = Inr (''799'' @ euro)
   \<and> get_ticket_price entorno (JStr ''London'') = Inr ''Unknown''
   \<and> get_ticket_price entorno (JStr ''Nairobi'') = Inr ''Unknown''"
  using get_ticket_price_table [of entorno "''LONDRES''" "''Londres''"]
        get_ticket_price_table [of entorno "''London''" "''London''"]
        get_ticket_price_table [of entorno "''Nairobi''" "''Nairobi''"]
  by (simp add: entorno_def ascii_lower_def ticket_prices_def euro_def aviso_precio_def
        print_guion_def o_acute_def)

text \<open>
  The claim as it was written fails: \<open>london\<close>, whose line is printed, does not get the 799
  euro fare.
\<close>

theorem get_ticket_price_london_counterexample:
  "print_exc entorno (aviso_precio ''london'') = None
   \<and> get_ticket_price entorno (JStr ''london'') = Inr ''Unknown''
   \<and> get_ticket_price entorno (JStr ''london'') \<noteq> Inr (''799'' @ euro)"
  by (simp add: entorno_def ascii_lower_def ticket_prices_def euro_def aviso_precio_def
        print_guion_def o_acute_def)

subsection \<open>Running the functions on the script\<close>

lemmas run_defs =
  responder_def responder_try_def terminar_def actualizar_historial_def manejar_herramienta_def
  explicar_componente_arduino_def mostrar_codigo_ejemplo_def generar_audio_educativo_def
  chat_def handle_tool_call_def
  entorno_def guion_create_def loads_guion_def ascii_lower_def str_guion_def exc_guion_def
  tutor_nuevo_def tutor_usado_def llamada_def pide_def dice_def truthy_opt_def TEMAS_ROBOTICA_def
  ticket_prices_def euro_def o_acute_def aviso_precio_def print_guion_def Let_def

lemmas run_mm_defs =
  responder_mm_def responder_try_mm_def terminar_mm_def manejar_herramienta_mm_def
  explicar_componente_arduino_mm_def mostrar_codigo_ejemplo_mm_def generar_imagen_educativa_def
  palabras_clave_def of_opt_def error_mark_def

subsection \<open>The tool turns of the second request\<close>

lemma manejar_herramienta_id:
  "manejar_herramienta E tc w = (Inr (r, a), w') \<Longrightarrow> \<exists>c. r = ToolResult c (tc_id tc)"
  by (auto simp: manejar_herramienta_def Let_def split: option.splits sum.splits prod.splits if_splits)

lemma procesar_herramientas_shape:
  "procesar_herramientas E tcs ms a w = (Inr (ms2, a2), w2) \<Longrightarrow>
     \<exists>ts. ms2 = ms @ ts \<and> length ts = length tcs
          \<and> (\<forall>i < length tcs. \<exists>c. ts ! i = ToolResult c (tc_id (tcs ! i)))"
proof (induction tcs arbitrary: ms a w)
  case Nil
  then show ?case by simp
next
  case (Cons tc rest)
  from Cons.prems obtain r au w1 where
    m: "manejar_herramienta E tc w = (Inr (r, au), w1)" and
    p: "procesar_herramientas E rest (ms @ [r]) (if truthy_opt au then au else a) w1 = (Inr (ms2, a2), w2)"
    by (auto split: prod.splits sum.splits)
  from manejar_herramienta_id [OF m] obtain c where r: "r = ToolResult c (tc_id tc)" by blast
  from Cons.IH [OF p] obtain ts where
    ts: "ms2 = (ms @ [r]) @ ts" "length ts = length rest"
        "\<forall>i < length rest. \<exists>c. ts ! i = ToolResult c (tc_id (rest ! i))" by blast
  have "\<forall>i < length (tc # rest). \<exists>c. (r # ts) ! i = ToolResult c (tc_id ((tc # rest) ! i))"
    using r ts(3) by (auto simp: nth_Cons split: nat.splits)
  with ts(1,2) show ?case
    by (intro exI [of _ "r # ts"]) simp
qed

lemma responder_two_requests:
  assumes "responder E t mensaje w = (res, t', w', [req1, req2])"
  shows "\<exists>response w1 tcs ts.
           chat_create E req1 w = (Inr response, w1)
           \<and> finish_reason response = ''tool_calls'' \<and> tool_calls response = Some tcs
           \<and> messages req2 = messages req1 @ AssistantCalls (content response) tcs # ts
           \<and> length ts = length tcs
           \<and> (\<forall>i < length tcs. \<exists>c. ts ! i = ToolResult c (tc_id (tcs ! i)))"
proof -
  define ms where "ms = [Message System (Some (system_prompt t))] @ historial_conversacion t
                        @ [Message User (Some mensaje)]"
  define r1 where "r1 = \<lparr>messages = ms, with_tools = True\<rparr>"
  obtain x w1 where c1: "chat_create E r1 w = (x, w1)" by (cases "chat_create E r1 w")
  from assms c1 obtain response where x: "x = Inr response"
    by (cases x) (auto simp: responder_def responder_try_def Let_def ms_def r1_def split: prod.splits sum.splits)
  from assms c1 x have fr: "finish_reason response = ''tool_calls''"
    by (auto simp: responder_def responder_try_def Let_def ms_def r1_def terminar_def
             split: prod.splits sum.splits if_splits option.splits)
  from assms c1 x fr obtain tcs where tcs: "tool_calls response = Some tcs"
    by (cases "tool_calls response")
       (auto simp: responder_def responder_try_def Let_def ms_def r1_def split: prod.splits sum.splits)
  obtain y w2 where p: "procesar_herramientas E tcs (ms @ [AssistantCalls (content response) tcs]) None w1 = (y, w2)"
    by (cases "procesar_herramientas E tcs (ms @ [AssistantCalls (content response) tcs]) None w1")
  from assms c1 x fr tcs p obtain ms2 a2 where y: "y = Inr (ms2, a2)"
    by (cases y) (auto simp: responder_def responder_try_def Let_def ms_def r1_def split: prod.splits sum.splits)
  from assms c1 x fr tcs p y have reqs: "req1 = r1" "req2 = \<lparr>messages = ms2, with_tools = False\<rparr>"
    by (auto simp: responder_def responder_try_def Let_def ms_def r1_def terminar_def
             split: prod.splits sum.splits if_splits option.splits)
  from procesar_herramientas_shape [OF p [unfolded y]] obtain ts where
    ts: "ms2 = (ms @ [AssistantCalls (content response) tcs]) @ ts" "length ts = length tcs"
        "\<forall>i < length tcs. \<exists>c. ts ! i = ToolResult c (tc_id (tcs ! i))" by blast
  show ?thesis
    using c1 x fr tcs ts reqs by (auto simp: r1_def)
qed

lemma chat_two_requests:
  assumes "chat E message history w = (r, w', [req1, req2])"
  shows "\<exists>response w1 tc rest c.
           chat_create E req1 w = (Inr response, w1)
           \<and> finish_reason response = ''tool_calls'' \<and> tool_calls response = Some (tc # rest)
           \<and> messages req2 = messages req1 @ [AssistantCalls (content response) (tc # rest),
                                                ToolResult c (tc_id tc)]"
  using assms
  by (auto simp: chat_def Let_def handle_tool_call_def
           split: prod.splits sum.splits if_splits option.splits list.splits)

text \<open>
  C1 (as amended). Whenever \<open>responder\<close> sends a second request, the first answer had finish
  reason \<open>tool_calls\<close> with some calls \<open>tcs\<close>, and the second request carries the messages of
  the first, then the assistant message with the calls, then exactly one tool turn per call,
  in the order of the calls, each with the id of its call. Whenever \<open>chat\<close> sends a second
  request, it carries after the assistant message exactly one tool turn, with the id of the
  first call, however many calls the answer had.
\<close>

theorem second_request_tool_turns:
  "(responder E t mensaje w = (res, t', w', [req1, req2]) \<longrightarrow>
      (\<exists>response w1 tcs ts.
         chat_create E req1 w = (Inr response, w1)
         \<and> finish_reason response = ''tool_calls'' \<and> tool_calls response = Some tcs
         \<and> messages req2 = messages req1 @ AssistantCalls (content response) tcs # ts
         \<and> length ts = length tcs
         \<and> (\<forall>i < length tcs. \<exists>c. ts ! i = ToolResult c (tc_id (tcs ! i)))))
   \<and> (chat E message history v = (r, v', [q1, q2]) \<longrightarrow>
      (\<exists>response v1 tc rest c.
         chat_create E q1 v = (Inr response, v1)
         \<and> finish_reason response = ''tool_calls'' \<and> tool_calls response = Some (tc # rest)
         \<and> messages q2 = messages q1 @ [AssistantCalls (content response) (tc # rest),
                                          ToolResult c (tc_id tc)]))"
  using responder_two_requests [of E t mensaje w res t' w' req1 req2]
        chat_two_requests [of E message history v r v' q1 q2]
  by blast

theorem second_request_tool_turns_witness:
  \<open>map tool_call_id (messages (last (snd (snd (snd
     (responder entorno tutor_nuevo ''Que es un led?''
        [pide [llamada ''call_1'' ''explicar_componente_arduino''
                 ''{"componente": "led", "nivel": "secundaria"}'',
               llamada ''call_2'' ''mostrar_codigo_ejemplo''
                 ''{"concepto": "led_parpadeo", "nivel": "primaria"}''],
         dice ''Un led'']))))))
     = [None, None, None, Some ''call_1'', Some ''call_2'']
   \<and> map tool_call_id (messages (last (snd (snd
     (chat entorno ''Precio a Londres?'' []
        [pide [llamada ''call_1'' ''get_ticket_price'' ''{"destination_city": "Londres"}''],
         dice ''799'']))))) = [None, None, None, Some ''call_1'']\<close>
  using second_request_tool_turns
    [of entorno tutor_nuevo "''Que es un led?''"
        \<open>[pide [llamada ''call_1'' ''explicar_componente_arduino''
                 ''{"componente": "led", "nivel": "secundaria"}'',
               llamada ''call_2'' ''mostrar_codigo_ejemplo''
                 ''{"concepto": "led_parpadeo", "nivel": "primaria"}''],
         dice ''Un led'']\<close>
        _ _ _ _ _ "''Precio a Londres?''" "[]"
        \<open>[pide [llamada ''call_1'' ''get_ticket_price'' ''{"destination_city": "Londres"}''],
         dice ''799'']\<close>]
  by (simp add: run_defs)

text \<open>
  The claim as it was written fails on \<open>chat\<close>: the first answer asks for two tool calls and
  the second request carries one tool turn.
\<close>

theorem chat_two_calls_counterexample:
  \<open>map role_of (messages (last (snd (snd
     (chat entorno ''Precio a Londres y Tokyo?'' []
        [pide [llamada ''call_1'' ''get_ticket_price'' ''{"destination_city": "Londres"}'',
               llamada ''call_2'' ''get_ticket_price'' ''{"destination_city": "Tokyo"}''],
         dice ''799'']))))) = [System, User, Assistant, Tool]\<close>
  by (simp add: run_defs)

subsection \<open>The stored history\<close>

lemma historial_actualizar:
  "historial_conversacion (actualizar_historial t mensaje r) =
     drop (length (historial_conversacion t) - 8) (historial_conversacion t)
     @ [Message User (Some mensaje), Message Assistant r]"
  by (simp add: actualizar_historial_def Let_def)

lemma historial_actualizar_drop:
  "historial_conversacion (actualizar_historial t mensaje r) =
     drop (length (historial_conversacion t) + 2 - 10)
       (historial_conversacion t @ [Message User (Some mensaje), Message Assistant r])"
  by (simp add: actualizar_historial_def Let_def)



lemma responder_try_tutor:
  "responder_try E t mensaje w = (Inr (res, t'), w', reqs) \<Longrightarrow>
     t' = actualizar_historial t mensaje (fst res)"
  by (auto simp: responder_try_def terminar_def Let_def
           split: prod.splits sum.splits option.splits if_splits)

lemma responder_try_mm_tutor:
  "responder_try_mm E t mensaje w = (Inr (res, t'), w', reqs) \<Longrightarrow>
     t' = actualizar_historial t mensaje (fst res)"
  by (auto simp: responder_try_mm_def terminar_mm_def Let_def
           split: prod.splits sum.splits option.splits if_splits)

lemma responder_tutor:
  "responder E t mensaje w = (res, t', w', reqs) \<Longrightarrow>
     t' = t \<or> t' = actualizar_historial t mensaje (fst res)"
  by (auto simp: responder_def dest: responder_try_tutor split: prod.splits sum.splits)

lemma responder_mm_tutor:
  "responder_mm E t mensaje w = (res, t', w', reqs) \<Longrightarrow>
     t' = t \<or> t' = actualizar_historial t mensaje (fst res)"
  by (auto simp: responder_mm_def dest: responder_try_mm_tutor split: prod.splits sum.splits)

lemma responder_of_try:
  "responder_try E t mensaje w = (Inr (res, t'), w', reqs) \<Longrightarrow>
     responder E t mensaje w = (res, t', w', reqs)"
  by (simp add: responder_def)

lemma responder_mm_of_try:
  "responder_try_mm E t mensaje w = (Inr (res, t'), w', reqs) \<Longrightarrow>
     responder_mm E t mensaje w = (res, t', w', reqs)"
  by (simp add: responder_mm_def)

text \<open>
  C2. A call of \<open>responder\<close> that produces a reply (its \<open>try\<close> block ends without an
  exception), in either tutor, returns the reply and the tutor of the block, and the history
  that \<open>responder\<close> leaves stored is a suffix of the old history followed by exactly two new
  turns: the user turn with the message, then the assistant turn with the reply that
  \<open>responder\<close> returns. Nothing else is appended, whatever requests were sent.
\<close>

theorem responder_appends_user_and_assistant:
  "(responder_try E t mensaje w = (Inr (res, t'), w', reqs) \<longrightarrow>
      responder E t mensaje w = (res, t', w', reqs)
      \<and> historial_conversacion (fst (snd (responder E t mensaje w))) =
          drop (length (historial_conversacion t) - 8) (historial_conversacion t)
          @ [Message User (Some mensaje),
             Message Assistant (fst (fst (responder E t mensaje w)))])
   \<and> (responder_try_mm E t mensaje w = (Inr (res_mm, t_mm), w_mm, reqs_mm) \<longrightarrow>
      responder_mm E t mensaje w = (res_mm, t_mm, w_mm, reqs_mm)
      \<and> historial_conversacion (fst (snd (responder_mm E t mensaje w))) =
          drop (length (historial_conversacion t) - 8) (historial_conversacion t)
          @ [Message User (Some mensaje),
             Message Assistant (fst (fst (responder_mm E t mensaje w)))])"
proof (intro conjI impI)
  assume h: "responder_try E t mensaje w = (Inr (res, t'), w', reqs)"
  from responder_of_try [OF h]
  show r: "responder E t mensaje w = (res, t', w', reqs)" .
  from responder_try_tutor [OF h]
  show "historial_conversacion (fst (snd (responder E t mensaje w))) =
          drop (length (historial_conversacion t) - 8) (historial_conversacion t)
          @ [Message User (Some mensaje),
             Message Assistant (fst (fst (responder E t mensaje w)))]"
    by (simp add: r historial_actualizar)
next
  assume h: "responder_try_mm E t mensaje w = (Inr (res_mm, t_mm), w_mm, reqs_mm)"
  from responder_mm_of_try [OF h]
  show r: "responder_mm E t mensaje w = (res_mm, t_mm, w_mm, reqs_mm)" .
  from responder_try_mm_tutor [OF h]
  show "historial_conversacion (fst (snd (responder_mm E t mensaje w))) =
          drop (length (historial_conversacion t) - 8) (historial_conversacion t)
          @ [Message User (Some mensaje),
             Message Assistant (fst (fst (responder_mm E t mensaje w)))]"
    by (simp add: r historial_actualizar)
qed

theorem responder_appends_user_and_assistant_witness:
  \<open>historial_conversacion (fst (snd
     (responder entorno tutor_usado ''Que es un led?''
        [pide [llamada ''call_1'' ''explicar_componente_arduino''
                 ''{"componente": "led", "nivel": "secundaria"}''],
         dice ''Un led''])))
     = [Message User (Some ''m2''), Message Assistant (Some ''r2''),
        Message User (Some ''m3''), Message Assistant (Some ''r3''),
        Message User (Some ''m4''), Message Assistant (Some ''r4''),
        Message User (Some ''m5''), Message Assistant (Some ''r5''),
        Message User (Some ''Que es un led?''), Message Assistant (Some ''Un led'')]
   \<and> historial_conversacion (fst (snd
     (responder_mm entorno tutor_usado ''Que es un led?''
        [pide [llamada ''call_1'' ''explicar_componente_arduino''
                 ''{"componente": "led", "nivel": "secundaria"}''],
         dice ''Un led''])))
     = [Message User (Some ''m2''), Message Assistant (Some ''r2''),
        Message User (Some ''m3''), Message Assistant (Some ''r3''),
        Message User (Some ''m4''), Message Assistant (Some ''r4''),
        Message User (Some ''m5''), Message Assistant (Some ''r5''),
        Message User (Some ''Que es un led?''), Message Assistant (Some ''Un led'')]
   \<and> fst (fst (responder entorno tutor_usado ''Que es un led?''
        [pide [llamada ''call_1'' ''explicar_componente_arduino''
                 ''{"componente": "led", "nivel": "secundaria"}''],
         dice ''Un led''])) = Some ''Un led''\<close>
  using responder_appends_user_and_assistant
    [of entorno tutor_usado "''Que es un led?''"
        \<open>[pide [llamada ''call_1'' ''explicar_componente_arduino''
                 ''{"componente": "led", "nivel": "secundaria"}''],
         dice ''Un led'']\<close>]
  by (simp add: run_defs run_mm_defs)







lemma alterna_even: "alterna h \<Longrightarrow> even (length h)"
  by (induction h rule: alterna.induct) auto

lemma alterna_roles: "alterna h \<Longrightarrow> x \<in> set h \<Longrightarrow> role_of x = User \<or> role_of x = Assistant"
  by (induction h rule: alterna.induct) auto

lemma alterna_append_pair:
  "alterna h \<Longrightarrow> role_of u = User \<Longrightarrow> role_of a = Assistant \<Longrightarrow> alterna (h @ [u, a])"
  by (induction h rule: alterna.induct) auto

lemma alterna_drop: "alterna h \<Longrightarrow> even k \<Longrightarrow> alterna (drop k h)"
proof (induction h arbitrary: k rule: alterna.induct)
  case 1
  then show ?case by simp
next
  case (2 x)
  then show ?case by simp
next
  case (3 u a rest)
  show ?case
  proof (cases "k = 0")
    case True
    with "3.prems" show ?thesis by simp
  next
    case False
    with \<open>even k\<close> obtain j where k: "k = Suc (Suc j)" and j: "even j"
      by (cases k; cases "k - 1") auto
    from "3.prems"(1) have "alterna rest" by simp
    from "3.IH" [OF this j] show ?thesis by (simp add: k)
  qed
qed

lemma alterna_actualizar:
  assumes "alterna (historial_conversacion t)"
  shows "alterna (historial_conversacion (actualizar_historial t mensaje r))"
proof -
  let ?h = "historial_conversacion t @ [Message User (Some mensaje), Message Assistant r]"
  have a: "alterna ?h" using assms by (rule alterna_append_pair) simp_all
  have "even (length (historial_conversacion t))" using assms by (rule alterna_even)
  then have "even (length (historial_conversacion t) + 2 - 10)" by simp
  from alterna_drop [OF a this] show ?thesis by (simp add: historial_actualizar_drop)
qed

lemma responder_todos_alterna:
  "alterna (historial_conversacion t) \<Longrightarrow>
     alterna (historial_conversacion (fst (responder_todos E t mensajes w)))"
proof (induction mensajes arbitrary: t w)
  case Nil
  then show ?case by simp
next
  case (Cons mensaje rest)
  obtain res t' w' reqs where r: "responder E t mensaje w = (res, t', w', reqs)"
    by (cases "responder E t mensaje w")
  from responder_tutor [OF r] Cons.prems have "alterna (historial_conversacion t')"
    by (auto intro: alterna_actualizar)
  from Cons.IH [OF this] show ?case by (simp add: r)
qed

lemma responder_todos_mm_alterna:
  "alterna (historial_conversacion t) \<Longrightarrow>
     alterna (historial_conversacion (fst (responder_todos_mm E t mensajes w)))"
proof (induction mensajes arbitrary: t w)
  case Nil
  then show ?case by simp
next
  case (Cons mensaje rest)
  obtain res t' w' reqs where r: "responder_mm E t mensaje w = (res, t', w', reqs)"
    by (cases "responder_mm E t mensaje w")
  from responder_mm_tutor [OF r] Cons.prems have "alterna (historial_conversacion t')"
    by (auto intro: alterna_actualizar)
  from Cons.IH [OF this] show ?case by (simp add: r)
qed

text \<open>
  C10. After successive calls of \<open>responder\<close>, however many, on a tutor whose stored history is
  made of user and assistant pairs (a new tutor has the empty history), the stored history
  is made of pairs again: it starts with a user turn and alternates user and assistant, its
  length is even and every turn in it has the user or the assistant role. So the cut to the
  last 10 turns never splits a pair. The same holds for the multimodal tutor.
\<close>

theorem historial_alternates:
  "alterna (historial_conversacion t) \<longrightarrow>
     alterna (historial_conversacion (fst (responder_todos E t mensajes w)))
     \<and> even (length (historial_conversacion (fst (responder_todos E t mensajes w))))
     \<and> list_all (\<lambda>x. role_of x = User \<or> role_of x = Assistant)
          (historial_conversacion (fst (responder_todos E t mensajes w)))
     \<and> alterna (historial_conversacion (fst (responder_todos_mm E t mensajes w)))
     \<and> even (length (historial_conversacion (fst (responder_todos_mm E t mensajes w))))
     \<and> list_all (\<lambda>x. role_of x = User \<or> role_of x = Assistant)
          (historial_conversacion (fst (responder_todos_mm E t mensajes w)))"
proof
  assume a: "alterna (historial_conversacion t)"
  have s: "alterna (historial_conversacion (fst (responder_todos E t mensajes w)))"
    using a by (rule responder_todos_alterna)
  have m: "alterna (historial_conversacion (fst (responder_todos_mm E t mensajes w)))"
    using a by (rule responder_todos_mm_alterna)
  show "alterna (historial_conversacion (fst (responder_todos E t mensajes w)))
     \<and> even (length (historial_conversacion (fst (responder_todos E t mensajes w))))
     \<and> list_all (\<lambda>x. role_of x = User \<or> role_of x = Assistant)
          (historial_conversacion (fst (responder_todos E t mensajes w)))
     \<and> alterna (historial_conversacion (fst (responder_todos_mm E t mensajes w)))
     \<and> even (length (historial_conversacion (fst (responder_todos_mm E t mensajes w))))
     \<and> list_all (\<lambda>x. role_of x = User \<or> role_of x = Assistant)
          (historial_conversacion (fst (responder_todos_mm E t mensajes w)))"
    using s m alterna_even [OF s] alterna_even [OF m] alterna_roles [OF s] alterna_roles [OF m]
    by (simp add: list_all_iff)
qed

theorem historial_alternates_witness:
  "alterna (historial_conversacion tutor_nuevo)
   \<and> map role_of (historial_conversacion (fst (responder_todos entorno tutor_nuevo
       [''m1'', ''m2'', ''m3'', ''m4'', ''m5'', ''m6'']
       [dice ''r1'', dice ''r2'', dice ''r3'', dice ''r4'', dice ''r5'', dice ''r6''])))
     = [User, Assistant, User, Assistant, User, Assistant, User, Assistant, User, Assistant]
   \<and> alterna (historial_conversacion (fst (responder_todos_mm entorno tutor_nuevo
       [''m1'', ''m2'', ''m3'', ''m4'', ''m5'', ''m6'']
       [dice ''r1'', dice ''r2'', dice ''r3'', dice ''r4'', dice ''r5'', dice ''r6''])))"
  using historial_alternates
    [of tutor_nuevo entorno "[''m1'', ''m2'', ''m3'', ''m4'', ''m5'', ''m6'']"
        "[dice ''r1'', dice ''r2'', dice ''r3'', dice ''r4'', dice ''r5'', dice ''r6'']"]
  by (simp add: run_defs run_mm_defs)

subsection \<open>Failures\<close>

lemma procesar_herramientas_append:
  "procesar_herramientas E (xs @ ys) ms a w =
     (case procesar_herramientas E xs ms a w of
        (Inl e, w') \<Rightarrow> (Inl e, w')
      | (Inr (ms', a'), w') \<Rightarrow> procesar_herramientas E ys ms' a' w')"
  by (induction xs arbitrary: ms a w) (auto split: prod.splits sum.splits)

lemma procesar_herramientas_raises:
  assumes "procesar_herramientas E pre ms a w = (Inr (ms', a'), w2)"
    and "manejar_herramienta E tc w2 = (Inl e, w3)"
  shows "procesar_herramientas E (pre @ tc # post) ms a w = (Inl e, w3)"
  using assms by (simp add: procesar_herramientas_append)

lemma responder_first_call_raises:
  assumes "chat_create E (primer_pedido t mensaje) w = (Inl e, w1)"
  shows "responder E t mensaje w =
           ((Some (''Error procesando mensaje: '' @ exc_str E e), None), t, w1, [primer_pedido t mensaje])"
  using assms by (simp add: responder_def responder_try_def primer_pedido_def Let_def)

lemma responder_mm_first_call_raises:
  assumes "chat_create E (primer_pedido t mensaje) w = (Inl e, w1)"
  shows "responder_mm E t mensaje w =
           ((Some (error_mark @ '' Error procesando mensaje: '' @ exc_str E e), None, None), t, w1,
            [primer_pedido t mensaje])"
  using assms by (simp add: responder_mm_def responder_try_mm_def primer_pedido_def Let_def)

lemma responder_second_call_raises:
  assumes "chat_create E (primer_pedido t mensaje) w = (Inr response, w1)"
    and "finish_reason response = ''tool_calls''"
    and "tool_calls response = Some tcs"
    and "procesar_herramientas E tcs
           (messages (primer_pedido t mensaje) @ [AssistantCalls (content response) tcs]) None w1
         = (Inr (ms2, a2), w2)"
    and "chat_create E \<lparr>messages = ms2, with_tools = False\<rparr> w2 = (Inl e, w3)"
  shows "responder E t mensaje w =
           ((Some (''Error procesando mensaje: '' @ exc_str E e), None), t, w3,
            [primer_pedido t mensaje, \<lparr>messages = ms2, with_tools = False\<rparr>])"
  using assms by (simp add: responder_def responder_try_def primer_pedido_def Let_def)

lemma responder_mm_second_call_raises:
  assumes "chat_create E (primer_pedido t mensaje) w = (Inr response, w1)"
    and "finish_reason response = ''tool_calls''"
    and "tool_calls response = Some tcs"
    and "procesar_herramientas_mm E tcs
           (messages (primer_pedido t mensaje) @ [AssistantCalls (content response) tcs]) None None w1
         = (Inr (ms2, i2, a2), w2)"
    and "chat_create E \<lparr>messages = ms2, with_tools = False\<rparr> w2 = (Inl e, w3)"
  shows "responder_mm E t mensaje w =
           ((Some (error_mark @ '' Error procesando mensaje: '' @ exc_str E e), None, None), t, w3,
            [primer_pedido t mensaje, \<lparr>messages = ms2, with_tools = False\<rparr>])"
  using assms by (simp add: responder_mm_def responder_try_mm_def primer_pedido_def Let_def)

lemma responder_dispatch_raises:
  assumes "chat_create E (primer_pedido t mensaje) w = (Inr response, w1)"
    and "finish_reason response = ''tool_calls''"
    and "tool_calls response = Some tcs"
    and "procesar_herramientas E tcs
           (messages (primer_pedido t mensaje) @ [AssistantCalls (content response) tcs]) None w1
         = (Inl e, w2)"
  shows "responder E t mensaje w =
           ((Some (''Error procesando mensaje: '' @ exc_str E e), None), t, w2, [primer_pedido t mensaje])"
  using assms by (simp add: responder_def responder_try_def primer_pedido_def Let_def)

text \<open>
  C7. When a call of the endpoint raises, be it the first request or the second one (sent after
  the tool calls of the first answer were handled), \<open>responder\<close> returns a text, the words
  \<open>Error procesando mensaje:\<close> followed by the text of the exception, and the tutor, its stored
  history included, is exactly as it was before the call. The same holds for the multimodal
  tutor, whose text starts with a cross mark.
\<close>

theorem endpoint_failure_keeps_history:
  "(chat_create E (primer_pedido t mensaje) w = (Inl e, w1) \<longrightarrow>
      responder E t mensaje w =
        ((Some (''Error procesando mensaje: '' @ exc_str E e), None), t, w1, [primer_pedido t mensaje])
      \<and> responder_mm E t mensaje w =
        ((Some (error_mark @ '' Error procesando mensaje: '' @ exc_str E e), None, None), t, w1,
         [primer_pedido t mensaje]))
   \<and> (chat_create E (primer_pedido t mensaje) w = (Inr response, w1)
      \<and> finish_reason response = ''tool_calls'' \<and> tool_calls response = Some tcs
      \<and> procesar_herramientas E tcs
            (messages (primer_pedido t mensaje) @ [AssistantCalls (content response) tcs]) None w1
          = (Inr (ms2, a2), w2)
      \<and> chat_create E \<lparr>messages = ms2, with_tools = False\<rparr> w2 = (Inl e2, w3) \<longrightarrow>
      responder E t mensaje w =
        ((Some (''Error procesando mensaje: '' @ exc_str E e2), None), t, w3,
         [primer_pedido t mensaje, \<lparr>messages = ms2, with_tools = False\<rparr>]))
   \<and> (chat_create E (primer_pedido t mensaje) w = (Inr response, w1)
      \<and> finish_reason response = ''tool_calls'' \<and> tool_calls response = Some tcs
      \<and> procesar_herramientas_mm E tcs
            (messages (primer_pedido t mensaje) @ [AssistantCalls (content response) tcs]) None None w1
          = (Inr (ms3, i3, a3), w4)
      \<and> chat_create E \<lparr>messages = ms3, with_tools = False\<rparr> w4 = (Inl e3, w5) \<longrightarrow>
      responder_mm E t mensaje w =
        ((Some (error_mark @ '' Error procesando mensaje: '' @ exc_str E e3), None, None), t, w5,
         [primer_pedido t mensaje, \<lparr>messages = ms3, with_tools = False\<rparr>]))"
proof (intro conjI impI)
  assume "chat_create E (primer_pedido t mensaje) w = (Inl e, w1)"
  then show "responder E t mensaje w =
        ((Some (''Error procesando mensaje: '' @ exc_str E e), None), t, w1, [primer_pedido t mensaje])"
    by (rule responder_first_call_raises)
next
  assume "chat_create E (primer_pedido t mensaje) w = (Inl e, w1)"
  then show "responder_mm E t mensaje w =
        ((Some (error_mark @ '' Error procesando mensaje: '' @ exc_str E e), None, None), t, w1,
         [primer_pedido t mensaje])"
    by (rule responder_mm_first_call_raises)
next
  assume "chat_create E (primer_pedido t mensaje) w = (Inr response, w1)
      \<and> finish_reason response = ''tool_calls'' \<and> tool_calls response = Some tcs
      \<and> procesar_herramientas E tcs
            (messages (primer_pedido t mensaje) @ [AssistantCalls (content response) tcs]) None w1
          = (Inr (ms2, a2), w2)
      \<and> chat_create E \<lparr>messages = ms2, with_tools = False\<rparr> w2 = (Inl e2, w3)"
  then show "responder E t mensaje w =
        ((Some (''Error procesando mensaje: '' @ exc_str E e2), None), t, w3,
         [primer_pedido t mensaje, \<lparr>messages = ms2, with_tools = False\<rparr>])"
    by (intro responder_second_call_raises [of E t mensaje w response w1 tcs ms2 a2 w2 e2 w3]) simp_all
next
  assume "chat_create E (primer_pedido t mensaje) w = (Inr response, w1)
      \<and> finish_reason response = ''tool_calls'' \<and> tool_calls response = Some tcs
      \<and> procesar_herramientas_mm E tcs
            (messages (primer_pedido t mensaje) @ [AssistantCalls (content response) tcs]) None None w1
          = (Inr (ms3, i3, a3), w4)
      \<and> chat_create E \<lparr>messages = ms3, with_tools = False\<rparr> w4 = (Inl e3, w5)"
  then show "responder_mm E t mensaje w =
        ((Some (error_mark @ '' Error procesando mensaje: '' @ exc_str E e3), None, None), t, w5,
         [primer_pedido t mensaje, \<lparr>messages = ms3, with_tools = False\<rparr>])"
    by (intro responder_mm_second_call_raises [of E t mensaje w response w1 tcs ms3 i3 a3 w4 e3 w5]) simp_all
qed

theorem endpoint_failure_keeps_history_witness:
  \<open>responder entorno tutor_nuevo ''Que es un led?'' [] =
     ((Some ''Error procesando mensaje: Connection error.'', None), tutor_nuevo, [],
      [primer_pedido tutor_nuevo ''Que es un led?''])
   \<and> fst (responder entorno tutor_nuevo ''Que es un led?''
        [pide [llamada ''call_1'' ''explicar_componente_arduino''
                 ''{"componente": "led", "nivel": "secundaria"}'']])
     = (Some ''Error procesando mensaje: Connection error.'', None)
   \<and> fst (snd (responder entorno tutor_nuevo ''Que es un led?''
        [pide [llamada ''call_1'' ''explicar_componente_arduino''
                 ''{"componente": "led", "nivel": "secundaria"}'']]))
     = tutor_nuevo
   \<and> fst (snd (responder_mm entorno tutor_nuevo ''Que es un led?''
        [pide [llamada ''call_1'' ''explicar_componente_arduino''
                 ''{"componente": "led", "nivel": "secundaria"}'']]))
     = tutor_nuevo\<close>
  using endpoint_failure_keeps_history
    [of entorno tutor_nuevo "''Que es un led?''" "[]" "ServiceError ''Connection error.''" "[]"]
  by (simp add: run_defs run_mm_defs primer_pedido_def)

lemma chat_dispatch_raises:
  assumes "chat_create E (primer_pedido_chat message history) v = (Inr response, v1)"
    and "finish_reason response = ''tool_calls''"
    and "handle_tool_call E response = Inl e"
  shows "chat E message history v = (Inl e, v1, [primer_pedido_chat message history])"
  using assms by (simp add: chat_def primer_pedido_chat_def Let_def)

lemma explicar_raises:
  assumes "json_loads E (tc_arguments tc) = Some args"
    and "tc_name tc = ''explicar_componente_arduino''"
    and "subscript args ''componente'' = Inr c" and "subscript args ''nivel'' = Inr n"
    and "explicar_componente_arduino E c n = Inl e"
  shows "manejar_herramienta E tc w = (Inl e, w)"
  using assms by (simp add: manejar_herramienta_def Let_def)

lemma mostrar_raises:
  assumes "json_loads E (tc_arguments tc) = Some args"
    and "tc_name tc = ''mostrar_codigo_ejemplo''"
    and "subscript args ''concepto'' = Inr c" and "subscript args ''nivel'' = Inr n"
    and "mostrar_codigo_ejemplo E c n = Inl e"
  shows "manejar_herramienta E tc w = (Inl e, w)"
  using assms by (simp add: manejar_herramienta_def Let_def)

text \<open>
  C4 (as amended). An exception raised by a tool callable is not turned into a tool result.
  In \<open>manejar_herramienta\<close> an exception of \<open>explicar_componente_arduino\<close> or of
  \<open>mostrar_codigo_ejemplo\<close> leaves the function. In \<open>responder\<close>, when the calls before \<open>tc\<close>
  were handled and handling \<open>tc\<close> raises, the exception does not leave \<open>responder\<close>: it
  returns the text \<open>Error procesando mensaje:\<close> followed by the text of the exception, with no
  audio, the tutor is as it was, and only the first request was sent. In \<open>chat\<close>, when
  \<open>get_ticket_price\<close> raises, the exception leaves \<open>chat\<close>, after the first request only.
\<close>

theorem tool_exception_ends_turn:
  "(json_loads E (tc_arguments tc) = Some args
      \<and> subscript args ''nivel'' = Inr n
      \<and> (tc_name tc = ''explicar_componente_arduino'' \<and> subscript args ''componente'' = Inr c
            \<and> explicar_componente_arduino E c n = Inl e
          \<or> tc_name tc = ''mostrar_codigo_ejemplo'' \<and> subscript args ''concepto'' = Inr c
            \<and> mostrar_codigo_ejemplo E c n = Inl e) \<longrightarrow>
      manejar_herramienta E tc w2 = (Inl e, w2))
   \<and> (chat_create E (primer_pedido t mensaje) w = (Inr response, w1)
      \<and> finish_reason response = ''tool_calls'' \<and> tool_calls response = Some (pre @ tc # post)
      \<and> procesar_herramientas E pre
            (messages (primer_pedido t mensaje) @ [AssistantCalls (content response) (pre @ tc # post)])
            None w1 = (Inr (ms', a'), w2)
      \<and> manejar_herramienta E tc w2 = (Inl e, w3) \<longrightarrow>
      responder E t mensaje w =
        ((Some (''Error procesando mensaje: '' @ exc_str E e), None), t, w3, [primer_pedido t mensaje]))
   \<and> (chat_create E (primer_pedido_chat message history) v = (Inr answer, v1)
      \<and> finish_reason answer = ''tool_calls'' \<and> tool_calls answer = Some (first # others)
      \<and> json_loads E (tc_arguments first) = Some arguments
      \<and> dict_get arguments ''destination_city'' = Inr city
      \<and> get_ticket_price E city = Inl e' \<longrightarrow>
      chat E message history v = (Inl e', v1, [primer_pedido_chat message history]))"
proof (intro conjI impI)
  assume "json_loads E (tc_arguments tc) = Some args
      \<and> subscript args ''nivel'' = Inr n
      \<and> (tc_name tc = ''explicar_componente_arduino'' \<and> subscript args ''componente'' = Inr c
            \<and> explicar_componente_arduino E c n = Inl e
          \<or> tc_name tc = ''mostrar_codigo_ejemplo'' \<and> subscript args ''concepto'' = Inr c
            \<and> mostrar_codigo_ejemplo E c n = Inl e)"
  then show "manejar_herramienta E tc w2 = (Inl e, w2)"
    using explicar_raises [of E tc args c n e w2] mostrar_raises [of E tc args c n e w2] by blast
next
  assume h: "chat_create E (primer_pedido t mensaje) w = (Inr response, w1)
      \<and> finish_reason response = ''tool_calls'' \<and> tool_calls response = Some (pre @ tc # post)
      \<and> procesar_herramientas E pre
            (messages (primer_pedido t mensaje) @ [AssistantCalls (content response) (pre @ tc # post)])
            None w1 = (Inr (ms', a'), w2)
      \<and> manejar_herramienta E tc w2 = (Inl e, w3)"
  then have "procesar_herramientas E (pre @ tc # post)
            (messages (primer_pedido t mensaje) @ [AssistantCalls (content response) (pre @ tc # post)])
            None w1 = (Inl e, w3)"
    by (intro procesar_herramientas_raises [of E pre _ None w1 ms' a' w2 tc e w3 post]) simp_all
  with h show "responder E t mensaje w =
        ((Some (''Error procesando mensaje: '' @ exc_str E e), None), t, w3, [primer_pedido t mensaje])"
    by (intro responder_dispatch_raises [of E t mensaje w response w1 "pre @ tc # post" e w3]) simp_all
next
  assume h: "chat_create E (primer_pedido_chat message history) v = (Inr answer, v1)
      \<and> finish_reason answer = ''tool_calls'' \<and> tool_calls answer = Some (first # others)
      \<and> json_loads E (tc_arguments first) = Some arguments
      \<and> dict_get arguments ''destination_city'' = Inr city
      \<and> get_ticket_price E city = Inl e'"
  then have "handle_tool_call E answer = Inl e'"
    by (simp add: handle_tool_call_def)
  with h show "chat E message history v = (Inl e', v1, [primer_pedido_chat message history])"
    by (intro chat_dispatch_raises [of E message history v answer v1 e']) simp_all
qed

theorem tool_exception_ends_turn_witness:
  \<open>manejar_herramienta entorno
       (llamada ''call_1'' ''explicar_componente_arduino''
          ''{"componente": ["led"], "nivel": "secundaria"}'') [dice ''Un led'']
     = (Inl TypeError, [dice ''Un led''])
   \<and> responder entorno tutor_nuevo ''Que es un led?''
        [pide [llamada ''call_1'' ''explicar_componente_arduino''
                 ''{"componente": ["led"], "nivel": "secundaria"}''],
         dice ''Un led'']
     = ((Some (''Error procesando mensaje: '' @ exc_guion TypeError), None), tutor_nuevo,
        [dice ''Un led''], [primer_pedido tutor_nuevo ''Que es un led?''])
   \<and> chat entorno ''Precio?'' [] [pide [llamada ''call_1'' ''get_ticket_price'' ''{}''], dice ''No lo se'']
     = (Inl AttributeError, [dice ''No lo se''], [primer_pedido_chat ''Precio?'' []])\<close>
  using tool_exception_ends_turn
    [of entorno
        \<open>llamada ''call_1'' ''explicar_componente_arduino''
           ''{"componente": ["led"], "nivel": "secundaria"}''\<close>
        \<open>JObj [(''componente'', JArr [JStr ''led'']), (''nivel'', JStr ''secundaria'')]\<close>
        "JStr ''secundaria''" "JArr [JStr ''led'']" TypeError "[dice ''Un led'']"
        tutor_nuevo "''Que es un led?''"
        \<open>[pide [llamada ''call_1'' ''explicar_componente_arduino''
                 ''{"componente": ["led"], "nivel": "secundaria"}''],
          dice ''Un led'']\<close>
        _ "[dice ''Un led'']" "[]" "[]" _ _ "[dice ''Un led'']"
        "''Precio?''" "[]" "[pide [llamada ''call_1'' ''get_ticket_price'' ''{}''], dice ''No lo se'']"
        _ "[dice ''No lo se'']" "llamada ''call_1'' ''get_ticket_price'' ''{}''" "[]"
        "JObj []" JNull AttributeError]
  by (simp add: run_defs primer_pedido_def primer_pedido_chat_def)

text \<open>
  The claim as it was written fails. In \<open>responder\<close> the tool raises (its component is a list,
  which is no dictionary key) and no second request is sent; in \<open>chat\<close> the tool raises (no
  city among the arguments) and the exception leaves \<open>chat\<close>.
\<close>

theorem tool_exception_counterexample:
  \<open>snd (snd (snd (responder entorno tutor_nuevo ''Que es un led?''
        [pide [llamada ''call_1'' ''explicar_componente_arduino''
                 ''{"componente": ["led"], "nivel": "secundaria"}''],
         dice ''Un led''])))
     = [primer_pedido tutor_nuevo ''Que es un led?'']
   \<and> fst (chat entorno ''Precio?'' []
        [pide [llamada ''call_1'' ''get_ticket_price'' ''{}''], dice ''No lo se''])
     = Inl AttributeError\<close>
  by (simp add: run_defs primer_pedido_def)

lemma manejar_herramienta_malformed:
  "json_loads E (tc_arguments tc) = None \<Longrightarrow> manejar_herramienta E tc w = (Inl JSONDecodeError, w)"
  by (simp add: manejar_herramienta_def Let_def)

text \<open>
  C5 (as amended). A tool call whose argument blob is not JSON ends the turn, and no payload is
  made for it. In \<open>responder\<close>, when the calls before \<open>tc\<close> were handled and the blob of \<open>tc\<close>
  does not decode, the decoding error does not leave \<open>responder\<close>: it returns the text
  \<open>Error procesando mensaje:\<close> followed by the text of the error, with no audio, the tutor is as
  it was, and only the first request was sent. In \<open>chat\<close>, when the blob of the first call does
  not decode, the error leaves \<open>chat\<close>, after the first request only.
\<close>

theorem malformed_arguments_end_turn:
  "(chat_create E (primer_pedido t mensaje) w = (Inr response, w1)
      \<and> finish_reason response = ''tool_calls'' \<and> tool_calls response = Some (pre @ tc # post)
      \<and> procesar_herramientas E pre
            (messages (primer_pedido t mensaje) @ [AssistantCalls (content response) (pre @ tc # post)])
            None w1 = (Inr (ms', a'), w2)
      \<and> json_loads E (tc_arguments tc) = None \<longrightarrow>
      responder E t mensaje w =
        ((Some (''Error procesando mensaje: '' @ exc_str E JSONDecodeError), None), t, w2,
         [primer_pedido t mensaje]))
   \<and> (chat_create E (primer_pedido_chat message history) v = (Inr answer, v1)
      \<and> finish_reason answer = ''tool_calls'' \<and> tool_calls answer = Some (first # others)
      \<and> json_loads E (tc_arguments first) = None \<longrightarrow>
      chat E message history v = (Inl JSONDecodeError, v1, [primer_pedido_chat message history]))"
proof (intro conjI impI)
  assume h: "chat_create E (primer_pedido t mensaje) w = (Inr response, w1)
      \<and> finish_reason response = ''tool_calls'' \<and> tool_calls response = Some (pre @ tc # post)
      \<and> procesar_herramientas E pre
            (messages (primer_pedido t mensaje) @ [AssistantCalls (content response) (pre @ tc # post)])
            None w1 = (Inr (ms', a'), w2)
      \<and> json_loads E (tc_arguments tc) = None"
  then have "manejar_herramienta E tc w2 = (Inl JSONDecodeError, w2)"
    by (simp add: manejar_herramienta_malformed)
  with h have "procesar_herramientas E (pre @ tc # post)
            (messages (primer_pedido t mensaje) @ [AssistantCalls (content response) (pre @ tc # post)])
            None w1 = (Inl JSONDecodeError, w2)"
    by (intro procesar_herramientas_raises [of E pre _ None w1 ms' a' w2 tc JSONDecodeError w2 post]) simp_all
  with h show "responder E t mensaje w =
        ((Some (''Error procesando mensaje: '' @ exc_str E JSONDecodeError), None), t, w2,
         [primer_pedido t mensaje])"
    by (intro responder_dispatch_raises [of E t mensaje w response w1 "pre @ tc # post" JSONDecodeError w2])
       simp_all
next
  assume h: "chat_create E (primer_pedido_chat message history) v = (Inr answer, v1)
      \<and> finish_reason answer = ''tool_calls'' \<and> tool_calls answer = Some (first # others)
      \<and> json_loads E (tc_arguments first) = None"
  then have "handle_tool_call E answer = Inl JSONDecodeError"
    by (simp add: handle_tool_call_def)
  with h show "chat E message history v = (Inl JSONDecodeError, v1, [primer_pedido_chat message history])"
    by (intro chat_dispatch_raises [of E message history v answer v1 JSONDecodeError]) simp_all
qed

theorem malformed_arguments_end_turn_witness:
  \<open>responder entorno tutor_nuevo ''Que es un led?''
        [pide [llamada ''call_1'' ''mostrar_codigo_ejemplo''
                 ''{"concepto": "led_parpadeo", "nivel": "primaria"}'',
               llamada ''call_2'' ''explicar_componente_arduino'' ''{"componente": ''],
         dice ''Un led'']
     = ((Some (''Error procesando mensaje: '' @ exc_guion JSONDecodeError), None), tutor_nuevo,
        [dice ''Un led''], [primer_pedido tutor_nuevo ''Que es un led?''])
   \<and> chat entorno ''Precio a Londres?'' []
        [pide [llamada ''call_1'' ''get_ticket_price'' ''{"destination_city": ''], dice ''799'']
     = (Inl JSONDecodeError, [dice ''799''], [primer_pedido_chat ''Precio a Londres?'' []])\<close>
  using malformed_arguments_end_turn
    [of entorno tutor_nuevo "''Que es un led?''"
        \<open>[pide [llamada ''call_1'' ''mostrar_codigo_ejemplo''
                 ''{"concepto": "led_parpadeo", "nivel": "primaria"}'',
               llamada ''call_2'' ''explicar_componente_arduino'' ''{"componente": ''],
          dice ''Un led'']\<close>
        _ "[dice ''Un led'']"
        \<open>[llamada ''call_1'' ''mostrar_codigo_ejemplo''
            ''{"concepto": "led_parpadeo", "nivel": "primaria"}'']\<close>
        \<open>llamada ''call_2'' ''explicar_componente_arduino'' ''{"componente": ''\<close>
        "[]" _ _ "[dice ''Un led'']"
        "''Precio a Londres?''" "[]"
        \<open>[pide [llamada ''call_1'' ''get_ticket_price'' ''{"destination_city": ''], dice ''799'']\<close>
        _ "[dice ''799'']"
        \<open>llamada ''call_1'' ''get_ticket_price'' ''{"destination_city": ''\<close> "[]"]
  by (simp add: run_defs primer_pedido_def primer_pedido_chat_def)

text \<open>
  The claim as it was written fails: on a blob that is not JSON, the decoding error leaves
  \<open>chat\<close>, and \<open>responder\<close> sends no second request, so no payload for the call is ever sent.
\<close>

theorem malformed_arguments_counterexample:
  \<open>fst (chat entorno ''Precio a Londres?'' []
        [pide [llamada ''call_1'' ''get_ticket_price'' ''{"destination_city": ''], dice ''799''])
     = Inl JSONDecodeError
   \<and> snd (snd (snd (responder entorno tutor_nuevo ''Que es un led?''
        [pide [llamada ''call_1'' ''explicar_componente_arduino'' ''{"componente": ''],
         dice ''Un led''])))
     = [primer_pedido tutor_nuevo ''Que es un led?'']\<close>
  by (simp add: run_defs primer_pedido_def)

subsection \<open>Unknown tools\<close>








subsection \<open>The system turn\<close>

lemma system_turns_append: "system_turns (xs @ ys) = system_turns xs + system_turns ys"
  by (simp add: system_turns_def)

lemma system_turns_none: "list_all (\<lambda>x. role_of x \<noteq> System) xs \<Longrightarrow> system_turns xs = 0"
  by (induction xs) (simp_all add: system_turns_def)

lemma system_turns_tool_results:
  assumes "\<forall>i < length ts. \<exists>c. ts ! i = ToolResult c (f i)"
  shows "system_turns ts = 0"
proof -
  have "\<forall>x \<in> set ts. role_of x \<noteq> System"
  proof
    fix x assume "x \<in> set ts"
    then obtain i where "i < length ts" "ts ! i = x" by (auto simp: in_set_conv_nth)
    with assms show "role_of x \<noteq> System" by fastforce
  qed
  then show ?thesis by (simp add: system_turns_def filter_empty_conv)
qed

lemma system_turns_Cons:
  "system_turns (x # xs) = (if role_of x = System then 1 else 0) + system_turns xs"
  by (simp add: system_turns_def)

lemma system_turns_Nil: "system_turns [] = 0"
  by (simp add: system_turns_def)

lemma un_system_primero_first:
  assumes "list_all (\<lambda>x. role_of x \<noteq> System) h"
  shows "un_system_primero p ([Message System (Some p)] @ h @ [Message User (Some m)])"
proof -
  from assms have "system_turns h = 0" by (rule system_turns_none)
  then show ?thesis
    by (simp add: un_system_primero_def system_turns_append system_turns_Cons system_turns_Nil)
qed

lemma un_system_primero_extend:
  assumes "un_system_primero p ms" and "system_turns ts = 0"
  shows "un_system_primero p (ms @ ts)"
proof -
  from assms(1) have "ms \<noteq> []" by (auto simp: un_system_primero_def)
  with assms show ?thesis
    by (cases ms) (simp_all add: un_system_primero_def system_turns_append system_turns_Cons)
qed

lemma responder_requests:
  "responder E t mensaje w = (res, t', w', reqs) \<Longrightarrow>
     reqs = [primer_pedido t mensaje] \<or> (\<exists>req2. reqs = [primer_pedido t mensaje, req2])"
  by (auto simp: responder_def responder_try_def primer_pedido_def terminar_def Let_def
           split: prod.splits sum.splits option.splits if_splits)

lemma chat_requests:
  "chat E message history v = (r, v', reqs) \<Longrightarrow>
     reqs = [primer_pedido_chat message history]
     \<or> (\<exists>req2. reqs = [primer_pedido_chat message history, req2])"
  by (auto simp: chat_def primer_pedido_chat_def Let_def
           split: prod.splits sum.splits option.splits if_splits)

lemma responder_system_turn:
  assumes h: "list_all (\<lambda>x. role_of x \<noteq> System) (historial_conversacion t)"
  shows "snd (snd (snd (responder E t mensaje w))) \<noteq> []
         \<and> list_all (\<lambda>req. un_system_primero (system_prompt t) (messages req))
              (snd (snd (snd (responder E t mensaje w))))"
proof -
  obtain res t' w' reqs where r: "responder E t mensaje w = (res, t', w', reqs)"
    by (cases "responder E t mensaje w")
  have first: "un_system_primero (system_prompt t) (messages (primer_pedido t mensaje))"
    using un_system_primero_first [OF h] by (simp add: primer_pedido_def)
  from responder_requests [OF r] show ?thesis
  proof
    assume "reqs = [primer_pedido t mensaje]"
    with r first show ?thesis by simp
  next
    assume "\<exists>req2. reqs = [primer_pedido t mensaje, req2]"
    then obtain req2 where reqs: "reqs = [primer_pedido t mensaje, req2]" by blast
    from responder_two_requests [OF r [unfolded reqs]] obtain response :: completion and tcs ts where
      m: "messages req2 = messages (primer_pedido t mensaje) @ AssistantCalls (content response) tcs # ts"
      and ts: "\<forall>i < length tcs. \<exists>c. ts ! i = ToolResult c (tc_id (tcs ! i))"
      and l: "length ts = length tcs"
      by blast
    from ts l have "system_turns ts = 0"
      by (intro system_turns_tool_results [of ts "\<lambda>i. tc_id (tcs ! i)"]) simp
    then have "system_turns (AssistantCalls (content response) tcs # ts) = 0"
      by (simp add: system_turns_Cons)
    from un_system_primero_extend [OF first this] m
    have "un_system_primero (system_prompt t) (messages req2)" by simp
    with r reqs first show ?thesis by simp
  qed
qed

lemma chat_system_turn:
  assumes h: "list_all (\<lambda>x. role_of x \<noteq> System) history"
  shows "snd (snd (chat E message history v)) \<noteq> []
         \<and> list_all (\<lambda>req. un_system_primero system_message (messages req))
              (snd (snd (chat E message history v)))"
proof -
  obtain r v' reqs where c: "chat E message history v = (r, v', reqs)"
    by (cases "chat E message history v")
  have first: "un_system_primero system_message (messages (primer_pedido_chat message history))"
    using un_system_primero_first [OF h] by (simp add: primer_pedido_chat_def)
  from chat_requests [OF c] show ?thesis
  proof
    assume "reqs = [primer_pedido_chat message history]"
    with c first show ?thesis by simp
  next
    assume "\<exists>req2. reqs = [primer_pedido_chat message history, req2]"
    then obtain req2 where reqs: "reqs = [primer_pedido_chat message history, req2]" by blast
    from chat_two_requests [OF c [unfolded reqs]] obtain response :: completion and tc rest x where
      m: "messages req2 = messages (primer_pedido_chat message history)
            @ [AssistantCalls (content response) (tc # rest), ToolResult x (tc_id tc)]"
      by blast
    have "system_turns [AssistantCalls (content response) (tc # rest), ToolResult x (tc_id tc)] = 0"
      by (simp add: system_turns_Cons system_turns_Nil)
    from un_system_primero_extend [OF first this] m
    have "un_system_primero system_message (messages req2)" by simp
    with c reqs first show ?thesis by simp
  qed
qed

text \<open>
  C8. When the history given to \<open>chat\<close> has no system turn, \<open>chat\<close> sends at least one request
  and the message list of every request it sends has exactly one system turn, at its head:
  the system message. The same holds for \<open>responder\<close> and the stored history of the tutor,
  with the system prompt of the tutor.
\<close>

theorem one_system_turn_first:
  "(list_all (\<lambda>x. role_of x \<noteq> System) history \<longrightarrow>
      snd (snd (chat E message history v)) \<noteq> []
      \<and> list_all (\<lambda>req. un_system_primero system_message (messages req))
           (snd (snd (chat E message history v))))
   \<and> (list_all (\<lambda>x. role_of x \<noteq> System) (historial_conversacion t) \<longrightarrow>
      snd (snd (snd (responder E t mensaje w))) \<noteq> []
      \<and> list_all (\<lambda>req. un_system_primero (system_prompt t) (messages req))
           (snd (snd (snd (responder E t mensaje w)))))"
  using chat_system_turn [of history E message v] responder_system_turn [of t E mensaje w]
  by blast

theorem one_system_turn_first_witness:
  \<open>map (\<lambda>req. map role_of (messages req))
     (snd (snd (chat entorno ''Y a Tokyo?''
        [Message User (Some ''Hola''), Message Assistant (Some ''Hola, en que puedo ayudar?'')]
        [pide [llamada ''call_1'' ''get_ticket_price'' ''{"destination_city": "Tokyo"}''],
         dice ''1400''])))
     = [[System, User, Assistant, User], [System, User, Assistant, User, Assistant, Tool]]
   \<and> map (\<lambda>req. map role_of (messages req))
     (snd (snd (snd (responder entorno tutor_nuevo ''Que es un led?''
        [pide [llamada ''call_1'' ''explicar_componente_arduino''
                 ''{"componente": "led", "nivel": "secundaria"}''],
         dice ''Un led'']))))
     = [[System, User], [System, User, Assistant, Tool]]\<close>
  using one_system_turn_first
    [of "[Message User (Some ''Hola''), Message Assistant (Some ''Hola, en que puedo ayudar?'')]"
        entorno "''Y a Tokyo?''"
        \<open>[pide [llamada ''call_1'' ''get_ticket_price'' ''{"destination_city": "Tokyo"}''],
          dice ''1400'']\<close>
        tutor_nuevo "''Que es un led?''"
        \<open>[pide [llamada ''call_1'' ''explicar_componente_arduino''
                 ''{"componente": "led", "nivel": "secundaria"}''],
          dice ''Un led'']\<close>]
  by (simp add: run_defs)

end
